theory Spec2Isabelle
  imports Complex_Main
begin

section \<open>Transactions as the hooks read them\<close>

text \<open>
  The hooks read a handful of fields of a transaction. Optional chaining in the source
  (\<^verbatim>\<open>transaction?.txnInfo?.isReqChkTxnExhausted\<close>) shows which parts may be absent;
  an absent part is \<open>None\<close>. Counters delivered by the server may be a number,
  \<^verbatim>\<open>null\<close> or missing (\<^verbatim>\<open>undefined\<close>), and the source tells the three apart
  (\<^verbatim>\<open>currentCount !== null\<close>), so they are kept apart here.
\<close>

datatype jsnum = Undefined | Null | Num int

text \<open>
  \<^verbatim>\<open>ToNumber\<close> of JavaScript: \<^verbatim>\<open>undefined\<close> is NaN (here \<open>None\<close>), \<^verbatim>\<open>null\<close> is 0.
  A relational comparison with NaN on either side is false.
\<close>

fun toNumber :: "jsnum \<Rightarrow> rat option" where
  "toNumber Undefined = None"
| "toNumber Null = Some 0"
| "toNumber (Num n) = Some (of_int n)"

definition js_lt :: "rat option \<Rightarrow> rat option \<Rightarrow> bool" where
  "js_lt a b = (case a of None \<Rightarrow> False | Some x \<Rightarrow> (case b of None \<Rightarrow> False | Some y \<Rightarrow> x < y))"

definition js_le :: "rat option \<Rightarrow> rat option \<Rightarrow> bool" where
  "js_le a b = (case a of None \<Rightarrow> False | Some x \<Rightarrow> (case b of None \<Rightarrow> False | Some y \<Rightarrow> x \<le> y))"

definition js_ge :: "rat option \<Rightarrow> rat option \<Rightarrow> bool" where
  "js_ge a b = js_le b a"

text \<open>Truthiness of a flag that is \<^verbatim>\<open>true\<close>, \<^verbatim>\<open>false\<close> or absent.\<close>

definition truthy :: "bool option \<Rightarrow> bool" where
  "truthy b = (b = Some True)"

record reqChkTxnParams =
  currentCount :: jsnum
  maxCount :: jsnum
  checkPoint2 :: jsnum

record payerInfo =
  role :: "string option"
  name :: string

record txnInfo =
  isICDRequested :: "bool option"
  isReqChkTxnExhausted :: "bool option"

text \<open>
  \<open>createdAt\<close> is the value of \<^verbatim>\<open>new Date(transaction.createdAt).getTime()\<close>, in
  milliseconds; \<open>None\<close> stands for a string that does not parse (the time is NaN).
\<close>

record Transaction =
  txn_id :: string
  createdAt :: "int option"
  status :: string
  selfInitiated :: bool
  purpose :: string
  payerInfo :: "payerInfo option"
  txnInfo :: "txnInfo option"
  reqChkTxnParams :: "reqChkTxnParams option"

text \<open>
  The members of \<^verbatim>\<open>TxnStatusType\<close> (declared in \<^verbatim>\<open>../constants\<close>) and of
  \<^verbatim>\<open>TxnPurposeCode\<close> (declared in \<^verbatim>\<open>./SendMoneyService\<close>) that the hooks compare
  with are parameters of the model: nothing is assumed about their values.
\<close>

record TxnStatusType =
  SUCCESS :: string
  DECLINED :: string
  EXPIRED :: string
  DELEGATE_INITIATED :: string

record TxnPurposeCode =
  SEND_TO_SELF :: string
  SEND_TO_OTHER :: string

section \<open>useTransactionStatusRefresh: the checkpoint-gated status poll\<close>

subsection \<open>Persisted records, notifications and the result of a poll\<close>

text \<open>
  The preference \<^verbatim>\<open>reqChkTxnParams\<close> holds a JSON list of records; the model keeps the
  parsed list. \<^verbatim>\<open>JSON.stringify\<close> drops a field that is \<^verbatim>\<open>undefined\<close> and reading it
  back gives \<^verbatim>\<open>undefined\<close> again, so writing and parsing is the identity on this type.
\<close>

record checkpoint_record =
  transactionId :: string
  rec_reqChkTxnParams :: "reqChkTxnParams option"
  rec_isReqChkTxnExhausted :: "bool option"
  refreshedCreatedAt :: "int option"

text \<open>
  The message keys passed to \<^verbatim>\<open>t(...)\<close>. The block message carries the first checkpoint
  and the delegate message for a secondary user carries the payer name; the other
  interpolation arguments (formatted clock time, remaining attempts) are display text
  and are not part of the model.
\<close>

datatype message =
    PENDING_STATUS_LIMT_EXCEEDED_DEFAULT
  | PENDING_STATUS_BLOCK int
  | SOMETHING_WRONG
  | PENDING_TXN_DELEGATE_INITIATED_PRIMARY
  | PENDING_TXN_DELEGATE_INITIATED_SECONDARY string
  | PENDING_STATUS_WITHIN_TWO_HOURS
  | PENDING_STATUS_ATTEMPTS_EXCEEDED
  | PENDING_STATUS_AFTER_TWO_HOURS_ATTEMPTS
  | PENDING_STATUS_AFTER_SOME_TIME

datatype snack = SnackInfo message | SnackError message

text \<open>
  What \<^verbatim>\<open>refreshTranactionDetails(id)\<close> delivers: the promise rejects (transport failure,
  or a response with \<^verbatim>\<open>error\<close> set, which \<^verbatim>\<open>validateResponse\<close> turns into a rejection),
  or it resolves with an object whose \<^verbatim>\<open>transaction\<close> may be absent.
\<close>

datatype fetch_result = Rejected | Resolved "Transaction option"

text \<open>
  Everything a poll does, made explicit: the notifications in the order shown, the
  preference list after the call, the number of status fetches performed, the number of
  calls of \<^verbatim>\<open>forceUpdate\<close>, the value returned, and whether the call ended in an
  exception that nothing caught.
\<close>

record poll_result =
  snacks :: "snack list"
  store :: "checkpoint_record list"
  fetches :: nat
  forceUpdates :: nat
  returned :: "Transaction option"
  threw :: bool

definition quiet :: "checkpoint_record list \<Rightarrow> snack list \<Rightarrow> poll_result" where
  "quiet st ms = \<lparr>snacks = ms, store = st, fetches = 0, forceUpdates = 0, returned = None, threw = False\<rparr>"

definition something_wrong :: "checkpoint_record list \<Rightarrow> poll_result" where
  "something_wrong st = \<lparr>snacks = [SnackError SOMETHING_WRONG], store = st, fetches = 1,
     forceUpdates = 0, returned = None, threw = False\<rparr>"

definition status_of :: "Transaction option \<Rightarrow> string option" where
  "status_of t = map_option status t"

definition isNonFinalStatus :: "TxnStatusType \<Rightarrow> Transaction option \<Rightarrow> bool" where
  "isNonFinalStatus K t =
     (status_of t \<noteq> Some (SUCCESS K) \<and> status_of t \<noteq> Some (DECLINED K) \<and> status_of t \<noteq> Some (EXPIRED K))"

definition params_of :: "Transaction option \<Rightarrow> reqChkTxnParams option" where
  "params_of t = (case t of None \<Rightarrow> None | Some x \<Rightarrow> reqChkTxnParams x)"

definition exhausted_of :: "Transaction option \<Rightarrow> bool option" where
  "exhausted_of t = (case t of None \<Rightarrow> None | Some x \<Rightarrow>
     (case txnInfo x of None \<Rightarrow> None | Some i \<Rightarrow> isReqChkTxnExhausted i))"

text \<open>\<^verbatim>\<open>const { currentCount, maxCount, checkPoint2 } = params ?? {}\<close>\<close>

definition counts_of :: "reqChkTxnParams option \<Rightarrow> jsnum \<times> jsnum \<times> jsnum" where
  "counts_of p = (case p of None \<Rightarrow> (Undefined, Undefined, Undefined)
     | Some q \<Rightarrow> (currentCount q, maxCount q, checkPoint2 q))"

subsection \<open>handleTransactionStatusMessages\<close>

definition handleTransactionStatusMessages ::
  "TxnStatusType \<Rightarrow> Transaction option \<Rightarrow> bool option \<Rightarrow> string option \<Rightarrow> string \<Rightarrow> jsnum \<Rightarrow> jsnum \<Rightarrow> snack list" where
  "handleTransactionStatusMessages K t isExhausted rl nm cur mx =
     (if status_of t = Some (DELEGATE_INITIATED K) \<and> cur = Null \<and> mx = Null \<and> rl = Some ''PRIMARY''
      then [SnackError PENDING_TXN_DELEGATE_INITIATED_PRIMARY]
      else if status_of t = Some (DELEGATE_INITIATED K) \<and> cur = Null \<and> mx = Null \<and> rl = Some ''SECONDARY''
      then [SnackError (PENDING_TXN_DELEGATE_INITIATED_SECONDARY nm)]
      else
        (if truthy isExhausted \<and> status_of t \<noteq> Some (SUCCESS K)
         then [SnackError PENDING_STATUS_LIMT_EXCEEDED_DEFAULT] else [])
        @ (if \<not> truthy isExhausted \<and> isNonFinalStatus K t
           then [SnackInfo PENDING_STATUS_WITHIN_TWO_HOURS] else [])
        @ (if \<not> truthy isExhausted \<and> mx = cur \<and> isNonFinalStatus K t
           then [SnackError PENDING_STATUS_ATTEMPTS_EXCEEDED] else []))"

subsection \<open>handleFirstTimeRefresh\<close>

text \<open>
  Called inside the \<^verbatim>\<open>try\<close> of \<^verbatim>\<open>fetchTransactionStatusDetails\<close> after the fetch has
  resolved. Destructuring \<^verbatim>\<open>payerInfo\<close> throws when it is absent, before anything is
  written; the caller's \<^verbatim>\<open>catch\<close> turns that into the generic notification.
\<close>

definition handleFirstTimeRefresh ::
  "TxnStatusType \<Rightarrow> Transaction option \<Rightarrow> checkpoint_record list \<Rightarrow> poll_result" where
  "handleFirstTimeRefresh K t parsed =
     (case t of
        None \<Rightarrow> something_wrong parsed
      | Some x \<Rightarrow>
         (case payerInfo x of
            None \<Rightarrow> something_wrong parsed
          | Some p \<Rightarrow>
             (let (cur, mx, cp2) = counts_of (reqChkTxnParams x);
                  isExhausted = exhausted_of t;
                  data = \<lparr>transactionId = txn_id x,
                          rec_reqChkTxnParams = reqChkTxnParams x,
                          rec_isReqChkTxnExhausted = isExhausted,
                          refreshedCreatedAt = createdAt x\<rparr> # parsed
              in \<lparr>snacks = handleTransactionStatusMessages K t isExhausted (role p) (name p) cur mx,
                  store = (if cur \<noteq> Null \<and> mx \<noteq> Null then data else parsed),
                  fetches = 1,
                  forceUpdates = 1,
                  returned = t,
                  threw = False\<rparr>)))"

subsection \<open>handleAfterCheckpoint2Refresh and handleWithinCheckpoint2Refresh\<close>

definition update_record :: "checkpoint_record list \<Rightarrow> nat \<Rightarrow> Transaction option \<Rightarrow> checkpoint_record list" where
  "update_record parsed i t =
     parsed[i := (parsed ! i)\<lparr>rec_reqChkTxnParams := params_of t,
                              rec_isReqChkTxnExhausted := exhausted_of t\<rparr>]"

definition handleAfterCheckpoint2Refresh ::
  "TxnStatusType \<Rightarrow> checkpoint_record list \<Rightarrow> nat \<Rightarrow> fetch_result \<Rightarrow> poll_result" where
  "handleAfterCheckpoint2Refresh K parsed i resp =
     (case resp of
        Rejected \<Rightarrow> something_wrong parsed
      | Resolved t \<Rightarrow>
         (let isExhausted = exhausted_of t
          in \<lparr>snacks =
                (if truthy isExhausted \<and> status_of t \<noteq> Some (SUCCESS K)
                 then [SnackError PENDING_STATUS_LIMT_EXCEEDED_DEFAULT] else [])
                @ (if \<not> truthy isExhausted \<and> isNonFinalStatus K t
                   then [SnackInfo PENDING_STATUS_AFTER_TWO_HOURS_ATTEMPTS] else []),
              store = update_record parsed i t,
              fetches = 1,
              forceUpdates = 1,
              returned = t,
              threw = False\<rparr>))"

definition handleWithinCheckpoint2Refresh ::
  "TxnStatusType \<Rightarrow> checkpoint_record list \<Rightarrow> nat \<Rightarrow> fetch_result \<Rightarrow> poll_result" where
  "handleWithinCheckpoint2Refresh K parsed i resp =
     (case resp of
        Rejected \<Rightarrow> something_wrong parsed
      | Resolved t \<Rightarrow>
         (let (cur, mx, cp2) = counts_of (params_of t)
          in \<lparr>snacks =
                (if mx = cur \<and> isNonFinalStatus K t
                 then [SnackError PENDING_STATUS_ATTEMPTS_EXCEEDED] else [])
                @ (if mx \<noteq> cur \<and> isNonFinalStatus K t
                   then [SnackInfo PENDING_STATUS_WITHIN_TWO_HOURS] else []),
              store = update_record parsed i t,
              fetches = 1,
              forceUpdates = 1,
              returned = t,
              threw = False\<rparr>))"

subsection \<open>handleSubsequentRefresh\<close>

text \<open>
  The record at the index found is destructured first; when it has no
  \<^verbatim>\<open>reqChkTxnParams\<close> the destructuring throws, and no \<^verbatim>\<open>try\<close> surrounds it.
\<close>

definition handleSubsequentRefresh ::
  "TxnStatusType \<Rightarrow> checkpoint_record list \<Rightarrow> nat \<Rightarrow> rat option \<Rightarrow> fetch_result \<Rightarrow> poll_result" where
  "handleSubsequentRefresh K parsed i secondsSinceCreated resp =
     (case rec_reqChkTxnParams (parsed ! i) of
        None \<Rightarrow> (quiet parsed [])\<lparr>threw := True\<rparr>
      | Some q \<Rightarrow>
         (let isExhausted = truthy (rec_isReqChkTxnExhausted (parsed ! i))
          in if \<not> isExhausted \<and> js_ge secondsSinceCreated (toNumber (checkPoint2 q))
             then handleAfterCheckpoint2Refresh K parsed i resp
             else if \<not> isExhausted \<and> js_lt (toNumber (currentCount q)) (toNumber (maxCount q))
             then handleWithinCheckpoint2Refresh K parsed i resp
             else if isExhausted
             then quiet parsed [SnackError PENDING_STATUS_LIMT_EXCEEDED_DEFAULT]
             else quiet parsed [SnackInfo PENDING_STATUS_AFTER_SOME_TIME]))"

subsection \<open>fetchTransactionStatusDetails\<close>

text \<open>\<^verbatim>\<open>parsed.findIndex(item => item.transactionId === transaction.id)\<close>\<close>

fun findIndex :: "string \<Rightarrow> checkpoint_record list \<Rightarrow> nat option" where
  "findIndex k [] = None"
| "findIndex k (r # rs) =
     (if transactionId r = k then Some 0 else map_option Suc (findIndex k rs))"

text \<open>\<^verbatim>\<open>(now.getTime() - createdAt.getTime()) / 1000\<close>, NaN when the date is invalid.\<close>

definition secondsSince :: "int \<Rightarrow> int option \<Rightarrow> rat option" where
  "secondsSince now c = (case c of None \<Rightarrow> None | Some ms \<Rightarrow> Some (of_int (now - ms) / 1000))"

definition role_of :: "Transaction \<Rightarrow> string option" where
  "role_of x = (case payerInfo x of None \<Rightarrow> None | Some p \<Rightarrow> role p)"

definition fetchTransactionStatusDetails ::
  "TxnStatusType \<Rightarrow> int \<Rightarrow> checkpoint_record list \<Rightarrow> fetch_result \<Rightarrow> Transaction \<Rightarrow> int \<Rightarrow> poll_result" where
  "fetchTransactionStatusDetails K now pref resp transaction reqChkTxnCheckPoint1 =
     (let isExhausted = exhausted_of (Some transaction);
          secondsSinceCreated = secondsSince now (createdAt transaction)
      in if truthy isExhausted
         then quiet pref [SnackInfo PENDING_STATUS_LIMT_EXCEEDED_DEFAULT]
         else if role_of transaction \<noteq> Some ''PRIMARY'' \<and> role_of transaction \<noteq> Some ''SECONDARY''
                 \<and> js_le secondsSinceCreated (Some (of_int reqChkTxnCheckPoint1))
         then quiet pref [SnackInfo (PENDING_STATUS_BLOCK reqChkTxnCheckPoint1)]
         else (case findIndex (txn_id transaction) pref of
                 None \<Rightarrow>
                   (case resp of
                      Rejected \<Rightarrow> something_wrong pref
                    | Resolved t \<Rightarrow> handleFirstTimeRefresh K t pref)
               | Some i \<Rightarrow> handleSubsequentRefresh K pref i secondsSinceCreated resp))"

text \<open>
  The two entry gates of \<^verbatim>\<open>fetchTransactionStatusDetails\<close>, the lookup of the persisted
  flag, and repeated polls of one transaction (each call with its own clock reading,
  fetch outcome and first checkpoint, the preference list threaded through).
\<close>

definition withinCheckpoint1 :: "int \<Rightarrow> Transaction \<Rightarrow> int \<Rightarrow> bool" where
  "withinCheckpoint1 now transaction reqChkTxnCheckPoint1 =
     (role_of transaction \<noteq> Some ''PRIMARY'' \<and> role_of transaction \<noteq> Some ''SECONDARY''
      \<and> js_le (secondsSince now (createdAt transaction)) (Some (of_int reqChkTxnCheckPoint1)))"

text \<open>The record that \<^verbatim>\<open>handleFirstTimeRefresh\<close> puts in front of the list, and when it is written.\<close>

definition first_record :: "Transaction \<Rightarrow> checkpoint_record" where
  "first_record x = \<lparr>transactionId = txn_id x, rec_reqChkTxnParams = reqChkTxnParams x,
     rec_isReqChkTxnExhausted = exhausted_of (Some x), refreshedCreatedAt = createdAt x\<rparr>"

definition writes_record :: "fetch_result \<Rightarrow> bool" where
  "writes_record resp =
     (case resp of
        Rejected \<Rightarrow> False
      | Resolved None \<Rightarrow> False
      | Resolved (Some x) \<Rightarrow>
          payerInfo x \<noteq> None
          \<and> fst (counts_of (reqChkTxnParams x)) \<noteq> Null
          \<and> fst (snd (counts_of (reqChkTxnParams x))) \<noteq> Null)"

definition record_exhausted :: "string \<Rightarrow> checkpoint_record list \<Rightarrow> bool" where
  "record_exhausted k pref =
     (case findIndex k pref of None \<Rightarrow> False
      | Some i \<Rightarrow> truthy (rec_isReqChkTxnExhausted (pref ! i)))"

fun pollRepeatedly ::
  "TxnStatusType \<Rightarrow> Transaction \<Rightarrow> checkpoint_record list \<Rightarrow> (int \<times> fetch_result \<times> int) list \<Rightarrow> poll_result list" where
  "pollRepeatedly K transaction pref [] = []"
| "pollRepeatedly K transaction pref ((now, resp, cp1) # calls) =
     (let r = fetchTransactionStatusDetails K now pref resp transaction cp1
      in r # pollRepeatedly K transaction (store r) calls)"

section \<open>useTransactionsManager: the cached lists\<close>

subsection \<open>State, closures and requests\<close>

type_synonym filter_obj = "(string \<times> string) list"

record PaginatedTransactions =
  transactions :: "Transaction list"
  count :: int
  hasNext :: bool
  fetchedTimestamp :: "int option"
  showShimmer :: bool
  totalCbAmount :: "string option"
  reqChkTxnCheckPoint1 :: "int option"

text \<open>
  Modelled from the spec: the wrapper \<^verbatim>\<open>Maybe\<close> (\<^verbatim>\<open>../wrappers/Maybe\<close>) is not among the
  sources. The hooks build its values with \<^verbatim>\<open>Maybe.unresolved()\<close>, \<^verbatim>\<open>Maybe.of(data)\<close> and
  \<^verbatim>\<open>Maybe.error(err)\<close>; the spec names the states Unresolved, Resolved(payload) and
  Failed(error), the shimmer page being a resolved payload with \<^verbatim>\<open>showShimmer\<close> set.
\<close>

datatype Maybe = MaybeUnresolved | MaybeOf PaginatedTransactions | MaybeError string

text \<open>The body of the \<^verbatim>\<open>transactionsList\<close> request: the filter keys, then \<^verbatim>\<open>limit\<close> and \<^verbatim>\<open>offset\<close>.\<close>

record request =
  req_filter :: filter_obj
  limit :: int
  req_offset :: int

text \<open>
  A callback made by \<^verbatim>\<open>useCallback\<close> reads the state variables of the render that
  created it: \<^verbatim>\<open>offset\<close>, \<^verbatim>\<open>filter\<close>, \<^verbatim>\<open>lastUpdated\<close> and
  \<^verbatim>\<open>errorOccuredDuringLastUpdate\<close> are constants of that render, and a setter
  (\<^verbatim>\<open>setFilter\<close>, \<^verbatim>\<open>setOffset\<close>) changes what the next render will see, not these
  constants. The refs (\<^verbatim>\<open>transactionsObservableRef.current\<close>) are mutable cells read at
  the time of the call. So every operation takes the render it belongs to and the state.
\<close>

record render =
  r_offset :: int
  r_filter :: filter_obj
  r_lastUpdated :: "int option"
  r_error :: bool

record manager =
  offset :: int
  filter_st :: filter_obj
  dateMode :: filter_obj
  lastUpdated :: "int option"
  errorOccuredDuringLastUpdate :: bool
  transactionsObservableRef :: "Maybe option"
  circleTransactionsObservableRef :: "Maybe option"
  paymentSubscriptionRef :: "render option"
  requests :: "request list"

definition render_of :: "manager \<Rightarrow> render" where
  "render_of s = \<lparr>r_offset = offset s, r_filter = filter_st s,
     r_lastUpdated = lastUpdated s, r_error = errorOccuredDuringLastUpdate s\<rparr>"

definition initialState :: manager where
  "initialState = \<lparr>offset = 0, filter_st = [], dateMode = [], lastUpdated = None,
     errorOccuredDuringLastUpdate = False, transactionsObservableRef = None,
     circleTransactionsObservableRef = None, paymentSubscriptionRef = None, requests = []\<rparr>"

text \<open>What the transport delivers for a page: a rejection, a response with \<^verbatim>\<open>error\<close> set, or a page.\<close>

record page =
  txnsCount :: int
  page_transactions :: "Transaction list"
  page_totalCbAmount :: "string option"
  page_reqChkTxnCheckPoint1 :: "int option"

datatype response = RequestRejected "string option" | ResponseError "string option" | ResponseOk page

subsection \<open>useTransactionTypes, useTransactionAPI and useTransactionPagination\<close>

definition isICDCashDepositPendingTransaction :: "TxnPurposeCode \<Rightarrow> Transaction \<Rightarrow> bool" where
  "isICDCashDepositPendingTransaction P transaction =
     (status transaction = ''PENDING''
      \<and> (selfInitiated transaction = True \<or> selfInitiated transaction = False)
      \<and> (case txnInfo transaction of None \<Rightarrow> False | Some i \<Rightarrow> isICDRequested i = Some False)
      \<and> (purpose transaction = SEND_TO_SELF P \<or> purpose transaction = SEND_TO_OTHER P))"

definition getTransactions :: "bool \<Rightarrow> filter_obj \<Rightarrow> int \<Rightarrow> int \<Rightarrow> request" where
  "getTransactions upiCircleTransactions flt pgSize off =
     \<lparr>req_filter = (if upiCircleTransactions then [(''upiCircle'', ''Y'')] else flt),
      limit = pgSize, req_offset = off\<rparr>"

definition pageSize :: int where
  "pageSize = 20"

definition hasNextPage :: "int \<Rightarrow> int \<Rightarrow> bool" where
  "hasNextPage cnt off = (off + pageSize < cnt)"

definition paginate :: "page \<Rightarrow> int \<Rightarrow> int option \<Rightarrow> PaginatedTransactions" where
  "paginate pg off lastUpd =
     \<lparr>transactions = page_transactions pg, count = txnsCount pg,
      hasNext = hasNextPage (txnsCount pg) off, fetchedTimestamp = lastUpd,
      showShimmer = False, totalCbAmount = page_totalCbAmount pg,
      reqChkTxnCheckPoint1 = page_reqChkTxnCheckPoint1 pg\<rparr>"

text \<open>\<^verbatim>\<open>errorResponse.userMessage || 'An error occurred'\<close>: an empty message is falsy too.\<close>

definition createError :: "string option \<Rightarrow> string" where
  "createError userMessage =
     (case userMessage of None \<Rightarrow> ''An error occurred''
      | Some m \<Rightarrow> if m = [] then ''An error occurred'' else m)"

definition onSuccess ::
  "response \<Rightarrow> (Maybe \<Rightarrow> manager \<Rightarrow> manager) \<Rightarrow> (Transaction \<Rightarrow> bool) \<Rightarrow> int \<Rightarrow> int option \<Rightarrow> manager \<Rightarrow> manager" where
  "onSuccess resp updateObservable filterICDPendingTransactions off lastUpd s =
     (case resp of
        ResponseOk pg \<Rightarrow>
          updateObservable
            (MaybeOf (paginate (pg\<lparr>page_transactions := filter filterICDPendingTransactions (page_transactions pg)\<rparr>) off lastUpd)) s
      | ResponseError um \<Rightarrow> updateObservable (MaybeError (createError um)) s
      | RequestRejected um \<Rightarrow> s)"

definition onError :: "string option \<Rightarrow> (Maybe \<Rightarrow> manager \<Rightarrow> manager) \<Rightarrow> manager \<Rightarrow> manager" where
  "onError um updateObservable s = updateObservable (MaybeError (createError um)) s"

subsection \<open>forceUpdate and forceCircleUpdate\<close>

text \<open>\<^verbatim>\<open>(data) => ref.current?.next(data)\<close>: nothing happens while the ref is empty.\<close>

definition next_main :: "Maybe \<Rightarrow> manager \<Rightarrow> manager" where
  "next_main d s = (case transactionsObservableRef s of None \<Rightarrow> s
     | Some v \<Rightarrow> s\<lparr>transactionsObservableRef := Some d\<rparr>)"

definition next_circle :: "Maybe \<Rightarrow> manager \<Rightarrow> manager" where
  "next_circle d s = (case circleTransactionsObservableRef s of None \<Rightarrow> s
     | Some v \<Rightarrow> s\<lparr>circleTransactionsObservableRef := Some d\<rparr>)"

definition shimmerData :: "int \<Rightarrow> int \<Rightarrow> int option \<Rightarrow> PaginatedTransactions" where
  "shimmerData cnt now cp1 =
     \<lparr>transactions = [], count = cnt, hasNext = False, fetchedTimestamp = Some now,
      showShimmer = True, totalCbAmount = Some ''0'', reqChkTxnCheckPoint1 = cp1\<rparr>"

text \<open>
  The part of \<^verbatim>\<open>forceUpdate\<close> that runs before the response arrives: the three setters,
  the fresh subject or the shimmer page, and the call of \<^verbatim>\<open>getTransactions\<close> with the
  render's \<^verbatim>\<open>filter\<close> at offset 0.
\<close>

definition forceUpdate :: "render \<Rightarrow> int \<Rightarrow> manager \<Rightarrow> manager" where
  "forceUpdate r now s =
     (let s1 = s\<lparr>offset := 0, lastUpdated := Some now, errorOccuredDuringLastUpdate := False\<rparr>;
          s2 = (case transactionsObservableRef s1 of
                  None \<Rightarrow> s1\<lparr>transactionsObservableRef := Some MaybeUnresolved\<rparr>
                | Some v \<Rightarrow> s1\<lparr>transactionsObservableRef := Some (MaybeOf (shimmerData 1 now (Some 0)))\<rparr>)
      in s2\<lparr>requests := requests s2 @ [getTransactions False (r_filter r) pageSize 0]\<rparr>)"

text \<open>The continuation of \<^verbatim>\<open>forceUpdate\<close>: \<^verbatim>\<open>.then(onSuccess ...).catch(onError ...)\<close>.\<close>

definition forceUpdate_settled :: "TxnPurposeCode \<Rightarrow> render \<Rightarrow> response \<Rightarrow> manager \<Rightarrow> manager" where
  "forceUpdate_settled P r resp s =
     (case resp of
        RequestRejected um \<Rightarrow> onError um next_main s
      | _ \<Rightarrow> onSuccess resp next_main (\<lambda>txn. \<not> isICDCashDepositPendingTransaction P txn) 0 (r_lastUpdated r) s)"

definition forceCircleUpdate :: "render \<Rightarrow> int \<Rightarrow> manager \<Rightarrow> manager" where
  "forceCircleUpdate r now s =
     (let s1 = s\<lparr>offset := 0, lastUpdated := Some now, errorOccuredDuringLastUpdate := False\<rparr>;
          s2 = (case circleTransactionsObservableRef s1 of
                  None \<Rightarrow> s1\<lparr>circleTransactionsObservableRef := Some MaybeUnresolved\<rparr>
                | Some v \<Rightarrow> s1\<lparr>circleTransactionsObservableRef := Some (MaybeOf (shimmerData 0 now None))\<rparr>)
      in s2\<lparr>requests := requests s2 @ [getTransactions True [] pageSize 0]\<rparr>)"

definition forceCircleUpdate_settled :: "TxnPurposeCode \<Rightarrow> render \<Rightarrow> response \<Rightarrow> manager \<Rightarrow> manager" where
  "forceCircleUpdate_settled P r resp s =
     (case resp of
        RequestRejected um \<Rightarrow> onError um next_circle s
      | _ \<Rightarrow> onSuccess resp next_circle (\<lambda>txn. \<not> isICDCashDepositPendingTransaction P txn) 0 (r_lastUpdated r) s)"

subsection \<open>hasExpired, shouldUpdate and the list getters\<close>

definition hasExpired :: "render \<Rightarrow> int \<Rightarrow> bool" where
  "hasExpired r now =
     (case r_lastUpdated r of None \<Rightarrow> True
      | Some lu \<Rightarrow> (let elapsed = now - lu; duration = 30 * 60 * 1000 in elapsed \<ge> duration))"

definition shouldUpdate :: "render \<Rightarrow> int \<Rightarrow> manager \<Rightarrow> bool" where
  "shouldUpdate r now s = (transactionsObservableRef s = None \<or> r_error r \<or> hasExpired r now)"

definition shouldUpdateCircleHistory :: "render \<Rightarrow> int \<Rightarrow> manager \<Rightarrow> bool" where
  "shouldUpdateCircleHistory r now s =
     (circleTransactionsObservableRef s = None \<or> r_error r \<or> hasExpired r now)"

definition fetchTransactionsList :: "render \<Rightarrow> int \<Rightarrow> manager \<Rightarrow> manager" where
  "fetchTransactionsList r now s = (if shouldUpdate r now s then forceUpdate r now s else s)"

definition fetchCircleTransactionList :: "render \<Rightarrow> int \<Rightarrow> manager \<Rightarrow> manager" where
  "fetchCircleTransactionList r now s =
     (if shouldUpdateCircleHistory r now s then forceCircleUpdate r now s else s)"

subsection \<open>fetchMore and fetchMoreCircleTxns\<close>

text \<open>
  \<^verbatim>\<open>ref.current.getValue().data.transactions || []\<close>: the items of a resolved page. What
  \<^verbatim>\<open>.data\<close> is on a value that is not resolved depends on the absent wrapper, so it
  is a parameter: \<open>None\<close> when the access throws (the \<^verbatim>\<open>catch\<close> of the caller then runs),
  \<open>Some xs\<close> when it evaluates to \<open>xs\<close>.
\<close>

definition existingTransactions :: "Transaction list option \<Rightarrow> Maybe \<Rightarrow> Transaction list option" where
  "existingTransactions nodata v = (case v of MaybeOf p \<Rightarrow> Some (transactions p) | _ \<Rightarrow> nodata)"

text \<open>
  Where a call of \<^verbatim>\<open>fetchMore\<close> stands when it reaches its \<^verbatim>\<open>await\<close>: the guard
  failed and nothing was done, an exception was caught before the request, or the request
  for \<open>newOffset\<close> is out and the items read before it are held for the continuation.
\<close>

datatype pending = NotIssued | Caught | Awaiting int "Transaction list"

definition fetchMore :: "Transaction list option \<Rightarrow> render \<Rightarrow> manager \<Rightarrow> manager \<times> pending" where
  "fetchMore nodata r s =
     (case transactionsObservableRef s of
        None \<Rightarrow> (s, NotIssued)
      | Some v \<Rightarrow>
         if r_error r then (s, NotIssued)
         else
           (let s1 = s\<lparr>offset := offset s + pageSize\<rparr>;
                newOffset = r_offset r + pageSize
            in case existingTransactions nodata v of
                 None \<Rightarrow> (next_main (MaybeError ''Failed to fetch more transactions'') s1, Caught)
               | Some ex \<Rightarrow>
                   (s1\<lparr>requests := requests s1 @ [getTransactions False (r_filter r) pageSize newOffset]\<rparr>,
                    Awaiting newOffset ex)))"

definition fetchMore_settled ::
  "TxnPurposeCode \<Rightarrow> render \<Rightarrow> pending \<Rightarrow> response \<Rightarrow> manager \<Rightarrow> manager" where
  "fetchMore_settled P r pend resp s =
     (case pend of
        Awaiting newOffset ex \<Rightarrow>
          (case resp of
             RequestRejected um \<Rightarrow> next_main (MaybeError ''Failed to fetch more transactions'') s
           | ResponseError um \<Rightarrow> next_main (MaybeError (case um of None \<Rightarrow> [] | Some m \<Rightarrow> m)) s
           | ResponseOk pg \<Rightarrow>
               next_main (MaybeOf
                 \<lparr>transactions = ex @ filter (\<lambda>txn. \<not> isICDCashDepositPendingTransaction P txn) (page_transactions pg),
                  count = txnsCount pg,
                  hasNext = hasNextPage (txnsCount pg) newOffset,
                  fetchedTimestamp = r_lastUpdated r,
                  showShimmer = False,
                  totalCbAmount = page_totalCbAmount pg,
                  reqChkTxnCheckPoint1 = None\<rparr>) s)
      | _ \<Rightarrow> s)"

definition fetchMoreCircleTxns :: "Transaction list option \<Rightarrow> render \<Rightarrow> manager \<Rightarrow> manager \<times> pending" where
  "fetchMoreCircleTxns nodata r s =
     (case circleTransactionsObservableRef s of
        None \<Rightarrow> (s, NotIssued)
      | Some v \<Rightarrow>
         if r_error r then (s, NotIssued)
         else
           (let s1 = s\<lparr>offset := offset s + pageSize\<rparr>;
                newOffset = r_offset r + pageSize
            in case existingTransactions nodata v of
                 None \<Rightarrow> (next_circle (MaybeError ''Failed to fetch more circle transactions'') s1, Caught)
               | Some ex \<Rightarrow>
                   (s1\<lparr>requests := requests s1 @ [getTransactions True [] pageSize newOffset]\<rparr>,
                    Awaiting newOffset ex)))"

definition fetchMoreCircleTxns_settled ::
  "TxnPurposeCode \<Rightarrow> render \<Rightarrow> pending \<Rightarrow> response \<Rightarrow> manager \<Rightarrow> manager" where
  "fetchMoreCircleTxns_settled P r pend resp s =
     (case pend of
        Awaiting newOffset ex \<Rightarrow>
          (case resp of
             RequestRejected um \<Rightarrow> next_circle (MaybeError ''Failed to fetch more circle transactions'') s
           | ResponseError um \<Rightarrow> next_circle (MaybeError (case um of None \<Rightarrow> [] | Some m \<Rightarrow> m)) s
           | ResponseOk pg \<Rightarrow>
               next_circle (MaybeOf
                 \<lparr>transactions = ex @ filter (\<lambda>txn. \<not> isICDCashDepositPendingTransaction P txn) (page_transactions pg),
                  count = txnsCount pg,
                  hasNext = hasNextPage (txnsCount pg) newOffset,
                  fetchedTimestamp = r_lastUpdated r,
                  showShimmer = False,
                  totalCbAmount = None,
                  reqChkTxnCheckPoint1 = None\<rparr>) s)
      | _ \<Rightarrow> s)"

text \<open>
  Serial use, as the callers are meant to use the hook: an operation is called by the
  render that follows the previous one (so the closure sees the committed state) and its
  response arrives before the next call.
\<close>

definition refetch :: "TxnPurposeCode \<Rightarrow> int \<Rightarrow> response \<Rightarrow> manager \<Rightarrow> manager" where
  "refetch P now resp s = (let r = render_of s in forceUpdate_settled P r resp (forceUpdate r now s))"

definition refetchCircle :: "TxnPurposeCode \<Rightarrow> int \<Rightarrow> response \<Rightarrow> manager \<Rightarrow> manager" where
  "refetchCircle P now resp s =
     (let r = render_of s in forceCircleUpdate_settled P r resp (forceCircleUpdate r now s))"

definition loadMore :: "TxnPurposeCode \<Rightarrow> Transaction list option \<Rightarrow> response \<Rightarrow> manager \<Rightarrow> manager" where
  "loadMore P nodata resp s =
     (let r = render_of s; (s1, pend) = fetchMore nodata r s in fetchMore_settled P r pend resp s1)"

fun loadMores :: "TxnPurposeCode \<Rightarrow> Transaction list option \<Rightarrow> response list \<Rightarrow> manager \<Rightarrow> manager" where
  "loadMores P nodata [] s = s"
| "loadMores P nodata (resp # resps) s = loadMores P nodata resps (loadMore P nodata resp s)"

definition kept :: "TxnPurposeCode \<Rightarrow> page \<Rightarrow> Transaction list" where
  "kept P pg = filter (\<lambda>txn. \<not> isICDCashDepositPendingTransaction P txn) (page_transactions pg)"

subsection \<open>useTransactionFilters\<close>

definition applyFilter :: "render \<Rightarrow> int \<Rightarrow> filter_obj \<Rightarrow> manager \<Rightarrow> manager" where
  "applyFilter r now filterBy s = forceUpdate r now (s\<lparr>filter_st := filterBy\<rparr>)"

definition applyDateMode :: "render \<Rightarrow> int \<Rightarrow> filter_obj \<Rightarrow> manager \<Rightarrow> manager" where
  "applyDateMode r now dateModeBy s = forceUpdate r now (s\<lparr>dateMode := dateModeBy\<rparr>)"

definition clearFilter :: "render \<Rightarrow> int \<Rightarrow> manager \<Rightarrow> manager" where
  "clearFilter r now s = forceUpdate r now (s\<lparr>filter_st := []\<rparr>)"

definition clearDateMode :: "render \<Rightarrow> int \<Rightarrow> manager \<Rightarrow> manager" where
  "clearDateMode r now s = forceUpdate r now (s\<lparr>dateMode := []\<rparr>)"

definition clearFilterWithoutUpdate :: "manager \<Rightarrow> manager" where
  "clearFilterWithoutUpdate s = s\<lparr>filter_st := []\<rparr>"

definition clearFilterWithUpdate :: "render \<Rightarrow> int \<Rightarrow> manager \<Rightarrow> manager" where
  "clearFilterWithUpdate r now s = forceUpdate r now (s\<lparr>filter_st := [], dateMode := []\<rparr>)"

definition filterforupiId :: "render \<Rightarrow> int \<Rightarrow> string \<Rightarrow> manager \<Rightarrow> manager" where
  "filterforupiId r now upiId s = forceUpdate r now (s\<lparr>filter_st := [(''vpa'', upiId)]\<rparr>)"

definition upiLitefilter :: "render \<Rightarrow> int \<Rightarrow> string \<Rightarrow> manager \<Rightarrow> manager" where
  "upiLitefilter r now upilite s = forceUpdate r now (s\<lparr>filter_st := [(''upiLite'', upilite)]\<rparr>)"

subsection \<open>useTransactionObservables\<close>

text \<open>
  The values of \<^verbatim>\<open>PaymentAction\<close> (\<^verbatim>\<open>../utils/PaymentActions\<close>) are parameters. The
  subscription holds the \<^verbatim>\<open>forceUpdate\<close> of the render that subscribed; an earlier
  subscription is unsubscribed first, so at most one is active.
\<close>

record 'a PaymentAction =
  SENT :: 'a
  APPROVED :: 'a
  PA_DECLINED :: 'a
  FAILED :: 'a
  DIRECT_PAY_FAILED :: 'a
  DIRECT_PAY_SENT :: 'a

definition recognized :: "'a PaymentAction \<Rightarrow> 'a list" where
  "recognized A = [SENT A, APPROVED A, PA_DECLINED A, FAILED A, DIRECT_PAY_FAILED A, DIRECT_PAY_SENT A]"

definition subscribePaymentActions :: "render \<Rightarrow> manager \<Rightarrow> manager" where
  "subscribePaymentActions r s = s\<lparr>paymentSubscriptionRef := Some r\<rparr>"

text \<open>
  One value arriving on the merged stream: the \<^verbatim>\<open>filter\<close> operator lets it through when
  \<^verbatim>\<open>includes(action, [...])\<close> holds, and the subscriber is \<^verbatim>\<open>forceUpdate\<close>.
\<close>

definition onPaymentAction :: "'a PaymentAction \<Rightarrow> int \<Rightarrow> 'a \<Rightarrow> manager \<Rightarrow> manager" where
  "onPaymentAction A now action s =
     (case paymentSubscriptionRef s of
        None \<Rightarrow> s
      | Some r \<Rightarrow> if action \<in> set (recognized A) then forceUpdate r now s else s)"

definition initializeTransactionsObservable :: "manager \<Rightarrow> manager" where
  "initializeTransactionsObservable s =
     (case transactionsObservableRef s of
        None \<Rightarrow> s\<lparr>transactionsObservableRef := Some MaybeUnresolved\<rparr>
      | Some v \<Rightarrow> s)"

definition initializeCircleTransactionsObservable :: "manager \<Rightarrow> manager" where
  "initializeCircleTransactionsObservable s =
     (case circleTransactionsObservableRef s of
        None \<Rightarrow> s\<lparr>circleTransactionsObservableRef := Some MaybeUnresolved\<rparr>
      | Some v \<Rightarrow> s)"

section \<open>Concrete inputs\<close>

text \<open>
  Status names, purpose codes and transactions used to run the definitions: a pending
  transaction created at time 0 whose payer has no role, and server answers for it.
\<close>

definition statuses :: TxnStatusType where
  "statuses = \<lparr>SUCCESS = ''SUCCESS'', DECLINED = ''DECLINED'', EXPIRED = ''EXPIRED'',
     DELEGATE_INITIATED = ''DELEGATE_INITIATED''\<rparr>"

definition purposes :: TxnPurposeCode where
  "purposes = \<lparr>SEND_TO_SELF = ''S2S'', SEND_TO_OTHER = ''S2O''\<rparr>"

definition pendingTxn :: Transaction where
  "pendingTxn = \<lparr>txn_id = ''T1'', createdAt = Some 0, status = ''PENDING'', selfInitiated = True,
     purpose = ''00'', payerInfo = Some \<lparr>role = None, name = ''Asha''\<rparr>,
     txnInfo = Some \<lparr>isICDRequested = None, isReqChkTxnExhausted = Some False\<rparr>,
     reqChkTxnParams = None\<rparr>"

definition withCounts :: "jsnum \<Rightarrow> jsnum \<Rightarrow> Transaction \<Rightarrow> Transaction" where
  "withCounts c m x = x\<lparr>reqChkTxnParams := Some \<lparr>currentCount = c, maxCount = m, checkPoint2 = Num 7200\<rparr>\<rparr>"

definition withExhausted :: "bool \<Rightarrow> Transaction \<Rightarrow> Transaction" where
  "withExhausted b x = x\<lparr>txnInfo := Some \<lparr>isICDRequested = None, isReqChkTxnExhausted = Some b\<rparr>\<rparr>"

definition withRole :: "string \<Rightarrow> Transaction \<Rightarrow> Transaction" where
  "withRole rl x = x\<lparr>payerInfo := Some \<lparr>role = Some rl, name = ''Asha''\<rparr>\<rparr>"

definition storedRecord :: "jsnum \<Rightarrow> jsnum \<Rightarrow> bool \<Rightarrow> checkpoint_record" where
  "storedRecord c m ex = \<lparr>transactionId = ''T1'',
     rec_reqChkTxnParams = Some \<lparr>currentCount = c, maxCount = m, checkPoint2 = Num 7200\<rparr>,
     rec_isReqChkTxnExhausted = Some ex, refreshedCreatedAt = Some 0\<rparr>"

section \<open>What the claims speak about\<close>

text \<open>The items and the \<^verbatim>\<open>hasNext\<close> flag of the main list when its page is resolved.\<close>

definition cachedItems :: "manager \<Rightarrow> Transaction list option" where
  "cachedItems s = (case transactionsObservableRef s of Some (MaybeOf p) \<Rightarrow> Some (transactions p) | _ \<Rightarrow> None)"

definition publishedHasNext :: "manager \<Rightarrow> bool option" where
  "publishedHasNext s = (case transactionsObservableRef s of Some (MaybeOf p) \<Rightarrow> Some (hasNext p) | _ \<Rightarrow> None)"

text \<open>The requests of \<open>n\<close> serial calls of \<^verbatim>\<open>fetchMore\<close> that start at offset \<open>off\<close>.\<close>

definition pageRequests :: "filter_obj \<Rightarrow> int \<Rightarrow> nat \<Rightarrow> request list" where
  "pageRequests flt off n = map (\<lambda>k. getTransactions False flt pageSize (off + pageSize * (int k + 1))) [0..<n]"

text \<open>
  The refresh rule in the words of the specification, for one list with a clock of its
  own (times in milliseconds): due when the cache is unresolved, when the last result
  was an error, or when 1800 seconds have passed since that list was fetched.
\<close>

definition shouldRefresh_spec :: "bool \<Rightarrow> bool \<Rightarrow> int \<Rightarrow> int \<Rightarrow> bool" where
  "shouldRefresh_spec unresolved lastFailed fetchedAt now =
     (unresolved \<or> lastFailed \<or> now - fetchedAt \<ge> 1800 * 1000)"

definition somePage :: page where
  "somePage = \<lparr>txnsCount = 45, page_transactions = [pendingTxn],
     page_totalCbAmount = Some ''0'', page_reqChkTxnCheckPoint1 = Some 120\<rparr>"

definition actions :: "string PaymentAction" where
  "actions = \<lparr>SENT = ''SENT'', APPROVED = ''APPROVED'', PA_DECLINED = ''DECLINED'', FAILED = ''FAILED'',
     DIRECT_PAY_FAILED = ''DIRECT_PAY_FAILED'', DIRECT_PAY_SENT = ''DIRECT_PAY_SENT''\<rparr>"

text \<open>The main list after its first page has been loaded from the initial state.\<close>

definition loaded :: manager where
  "loaded = refetch purposes 0 (ResponseOk somePage) initialState"

section \<open>Properties of the status poll\<close>

lemmas poll_defs = fetchTransactionStatusDetails_def handleSubsequentRefresh_def
  handleFirstTimeRefresh_def handleAfterCheckpoint2Refresh_def handleWithinCheckpoint2Refresh_def
  quiet_def something_wrong_def Let_def

lemmas js_defs = js_le_def js_lt_def js_ge_def secondsSince_def role_of_def truthy_def
  exhausted_of_def params_of_def counts_of_def status_of_def isNonFinalStatus_def

lemmas example_defs = statuses_def purposes_def pendingTxn_def withCounts_def withExhausted_def
  withRole_def storedRecord_def

lemma poll_exhausted_once:
  assumes "truthy (exhausted_of (Some transaction)) \<or> record_exhausted (txn_id transaction) pref"
  shows "fetches (fetchTransactionStatusDetails K now pref resp transaction cp1) = 0
       \<and> store (fetchTransactionStatusDetails K now pref resp transaction cp1) = pref"
  using assms
  by (auto simp: poll_defs record_exhausted_def Let_def split: option.splits)

lemma poll_past_gates:
  assumes "\<not> truthy (exhausted_of (Some transaction))"
      and "\<not> withinCheckpoint1 now transaction cp1"
  shows "fetchTransactionStatusDetails K now pref resp transaction cp1
     = (case findIndex (txn_id transaction) pref of
          None \<Rightarrow> (case resp of Rejected \<Rightarrow> something_wrong pref
                    | Resolved t \<Rightarrow> handleFirstTimeRefresh K t pref)
        | Some i \<Rightarrow> handleSubsequentRefresh K pref i (secondsSince now (createdAt transaction)) resp)"
  using assms by (auto simp: fetchTransactionStatusDetails_def withinCheckpoint1_def Let_def)

text \<open>
  Claim C3. When the exhausted flag is set, in the transaction handed in or in the
  persisted record found for its id, a poll performs no status fetch and leaves the
  preference list as it was; so does every poll of any sequence of repeated polls,
  whatever the clock, the first checkpoint and the answer the transport would give.
\<close>

theorem C3_exhausted_polls_are_inert:
  assumes "truthy (exhausted_of (Some transaction)) \<or> record_exhausted (txn_id transaction) pref"
  shows "map fetches (pollRepeatedly K transaction pref calls) = replicate (length calls) 0
       \<and> map store (pollRepeatedly K transaction pref calls) = replicate (length calls) pref"
  using assms
proof (induction calls)
  case Nil
  then show ?case by simp
next
  case (Cons c calls)
  obtain now resp cp1 where c: "c = (now, resp, cp1)" by (cases c) auto
  from Cons.prems have one: "fetches (fetchTransactionStatusDetails K now pref resp transaction cp1) = 0
       \<and> store (fetchTransactionStatusDetails K now pref resp transaction cp1) = pref"
    by (rule poll_exhausted_once)
  with Cons show ?case by (simp add: c Let_def)
qed

text \<open>
  Two polls of a transaction whose persisted record is exhausted: no fetch, the list unchanged.
\<close>

theorem C3_witness:
  "record_exhausted (txn_id pendingTxn) [storedRecord (Num 1) (Num 3) True]
   \<and> map fetches (pollRepeatedly statuses pendingTxn [storedRecord (Num 1) (Num 3) True]
        [(130000, Resolved (Some (withCounts (Num 2) (Num 3) pendingTxn)), 120), (9000000, Rejected, 120)]) = [0, 0]
   \<and> map store (pollRepeatedly statuses pendingTxn [storedRecord (Num 1) (Num 3) True]
        [(130000, Resolved (Some (withCounts (Num 2) (Num 3) pendingTxn)), 120), (9000000, Rejected, 120)])
      = [[storedRecord (Num 1) (Num 3) True], [storedRecord (Num 1) (Num 3) True]]"
proof -
  have h: "record_exhausted (txn_id pendingTxn) [storedRecord (Num 1) (Num 3) True]"
    by (simp add: record_exhausted_def example_defs truthy_def)
  from C3_exhausted_polls_are_inert [OF disjI2 [OF h], of statuses
      "[(130000, Resolved (Some (withCounts (Num 2) (Num 3) pendingTxn)), 120), (9000000, Rejected, 120)]"]
  show ?thesis using h by (simp add: numeral_2_eq_2)
qed

text \<open>
  Claim C6. When the status fetch is rejected the preference list is unchanged and
  \<^verbatim>\<open>forceUpdate\<close> is not called; whenever the fetch was attempted the only notification
  is the generic \<^verbatim>\<open>SOMETHING_WRONG\<close> error. Conversely, for any answer of the
  transport, a poll that changes the preference list has performed its fetch and the
  fetch has resolved.
\<close>

theorem C6_failed_fetch:
  "store (fetchTransactionStatusDetails K now pref Rejected transaction cp1) = pref
   \<and> forceUpdates (fetchTransactionStatusDetails K now pref Rejected transaction cp1) = 0
   \<and> (fetches (fetchTransactionStatusDetails K now pref Rejected transaction cp1) = 1 \<longrightarrow>
        snacks (fetchTransactionStatusDetails K now pref Rejected transaction cp1) = [SnackError SOMETHING_WRONG])
   \<and> (store (fetchTransactionStatusDetails K now pref resp transaction cp1) \<noteq> pref \<longrightarrow>
        (\<exists>t. resp = Resolved t) \<and> fetches (fetchTransactionStatusDetails K now pref resp transaction cp1) = 1)"
  by (auto simp: poll_defs Let_def split: option.splits fetch_result.splits prod.splits)

text \<open>
  A first poll at 130 s whose fetch is rejected, and the same poll with a resolved fetch,
  which is the one that writes.
\<close>

theorem C6_witness:
  "fetches (fetchTransactionStatusDetails statuses 130000 [] Rejected pendingTxn 120) = 1
   \<and> snacks (fetchTransactionStatusDetails statuses 130000 [] Rejected pendingTxn 120) = [SnackError SOMETHING_WRONG]
   \<and> store (fetchTransactionStatusDetails statuses 130000 [] Rejected pendingTxn 120) = []
   \<and> store (fetchTransactionStatusDetails statuses 130000 []
        (Resolved (Some (withCounts (Num 1) (Num 3) pendingTxn))) pendingTxn 120) \<noteq> []
   \<and> fetches (fetchTransactionStatusDetails statuses 130000 []
        (Resolved (Some (withCounts (Num 1) (Num 3) pendingTxn))) pendingTxn 120) = 1"
proof -
  have a: "fetches (fetchTransactionStatusDetails statuses 130000 [] Rejected pendingTxn 120) = 1"
    by (simp add: poll_defs js_defs example_defs)
  have b: "store (fetchTransactionStatusDetails statuses 130000 []
        (Resolved (Some (withCounts (Num 1) (Num 3) pendingTxn))) pendingTxn 120) \<noteq> []"
    by (simp add: poll_defs js_defs example_defs)
  from C6_failed_fetch [of statuses 130000 "[]" pendingTxn 120 "Resolved (Some (withCounts (Num 1) (Num 3) pendingTxn))"]
  show ?thesis using a b by simp
qed

text \<open>
  Claim C4 as written fails twice. A transaction already flagged exhausted, 60 s old with
  a first checkpoint of 120 s and no role, gets the limit-exceeded notification, not the
  blocked one. A transaction 130 s old with no persisted record whose fetch answers with
  \<^verbatim>\<open>null\<close> counters is fetched once and no record is created.
\<close>

theorem C4_counterexample:
  "withinCheckpoint1 60000 (withExhausted True pendingTxn) 120
   \<and> snacks (fetchTransactionStatusDetails statuses 60000 [] Rejected (withExhausted True pendingTxn) 120)
       = [SnackInfo PENDING_STATUS_LIMT_EXCEEDED_DEFAULT]
   \<and> \<not> withinCheckpoint1 130000 pendingTxn 120
   \<and> findIndex (txn_id pendingTxn) [] = None
   \<and> fetches (fetchTransactionStatusDetails statuses 130000 []
        (Resolved (Some (withCounts Null Null pendingTxn))) pendingTxn 120) = 1
   \<and> store (fetchTransactionStatusDetails statuses 130000 []
        (Resolved (Some (withCounts Null Null pendingTxn))) pendingTxn 120) = []"
  by (simp add: poll_defs js_defs example_defs withinCheckpoint1_def)

text \<open>
  Claim C4, amended. For a transaction not flagged exhausted: within the first checkpoint
  and with a role that is neither PRIMARY nor SECONDARY, the poll shows the blocked
  notification with the checkpoint value, fetches nothing and writes nothing; past that
  gate and with no persisted record for the id, the poll performs exactly one fetch, and
  it puts a record built from the answer in front of the list exactly when the fetch
  resolved with a transaction that has its \<^verbatim>\<open>payerInfo\<close> and whose
  \<^verbatim>\<open>currentCount\<close> and \<^verbatim>\<open>maxCount\<close> are both not \<^verbatim>\<open>null\<close>; otherwise the list is
  unchanged.
\<close>

theorem C4_gate_and_first_refresh:
  assumes "\<not> truthy (exhausted_of (Some transaction))"
  shows "(withinCheckpoint1 now transaction cp1 \<longrightarrow>
            fetchTransactionStatusDetails K now pref resp transaction cp1
              = quiet pref [SnackInfo (PENDING_STATUS_BLOCK cp1)])
       \<and> (\<not> withinCheckpoint1 now transaction cp1 \<and> findIndex (txn_id transaction) pref = None \<longrightarrow>
            fetches (fetchTransactionStatusDetails K now pref resp transaction cp1) = 1
            \<and> store (fetchTransactionStatusDetails K now pref resp transaction cp1)
                = (case resp of
                     Resolved (Some x) \<Rightarrow> if writes_record resp then first_record x # pref else pref
                   | _ \<Rightarrow> pref))"
  using assms
  by (auto simp: poll_defs withinCheckpoint1_def writes_record_def first_record_def counts_of_def
           split: option.splits fetch_result.splits prod.splits)

text \<open>The two examples of the claim: age 60 s is blocked, age 130 s fetches once and writes the record.\<close>

theorem C4_witness:
  "\<not> truthy (exhausted_of (Some pendingTxn))
   \<and> withinCheckpoint1 60000 pendingTxn 120
   \<and> fetchTransactionStatusDetails statuses 60000 [] Rejected pendingTxn 120
       = quiet [] [SnackInfo (PENDING_STATUS_BLOCK 120)]
   \<and> fetches (quiet [] [SnackInfo (PENDING_STATUS_BLOCK 120)]) = 0
   \<and> \<not> withinCheckpoint1 130000 pendingTxn 120 \<and> findIndex (txn_id pendingTxn) [] = None
   \<and> writes_record (Resolved (Some (withCounts (Num 1) (Num 3) pendingTxn)))
   \<and> fetches (fetchTransactionStatusDetails statuses 130000 []
        (Resolved (Some (withCounts (Num 1) (Num 3) pendingTxn))) pendingTxn 120) = 1
   \<and> store (fetchTransactionStatusDetails statuses 130000 []
        (Resolved (Some (withCounts (Num 1) (Num 3) pendingTxn))) pendingTxn 120)
       = [first_record (withCounts (Num 1) (Num 3) pendingTxn)]"
proof -
  have e: "\<not> truthy (exhausted_of (Some pendingTxn))"
    by (simp add: js_defs example_defs)
  have w1: "withinCheckpoint1 60000 pendingTxn 120"
    by (simp add: withinCheckpoint1_def js_defs example_defs)
  have w2: "\<not> withinCheckpoint1 130000 pendingTxn 120 \<and> findIndex (txn_id pendingTxn) [] = None"
    by (simp add: withinCheckpoint1_def js_defs example_defs)
  have wr: "writes_record (Resolved (Some (withCounts (Num 1) (Num 3) pendingTxn)))"
    by (simp add: writes_record_def js_defs example_defs)
  from C4_gate_and_first_refresh [OF e, of 60000 120 statuses "[]" Rejected]
       C4_gate_and_first_refresh [OF e, of 130000 120 statuses "[]"
         "Resolved (Some (withCounts (Num 1) (Num 3) pendingTxn))"]
  show ?thesis using e w1 w2 wr by (simp add: quiet_def)
qed

text \<open>
  Claim C5 as written fails. The persisted record has \<^verbatim>\<open>currentCount = maxCount = 3\<close> and
  is not exhausted, the transaction is 8000 s old (past the second checkpoint of 7200 s),
  and the fetch returns the non-terminal status PENDING with the same counters: the only
  notification is the after-two-hours information, not the attempts-exceeded error.
\<close>

theorem C5_counterexample:
  "findIndex (txn_id pendingTxn) [storedRecord (Num 3) (Num 3) False] = Some 0
   \<and> isNonFinalStatus statuses (Some (withCounts (Num 3) (Num 3) pendingTxn))
   \<and> fetches (fetchTransactionStatusDetails statuses 8000000 [storedRecord (Num 3) (Num 3) False]
        (Resolved (Some (withCounts (Num 3) (Num 3) pendingTxn))) pendingTxn 120) = 1
   \<and> snacks (fetchTransactionStatusDetails statuses 8000000 [storedRecord (Num 3) (Num 3) False]
        (Resolved (Some (withCounts (Num 3) (Num 3) pendingTxn))) pendingTxn 120)
       = [SnackInfo PENDING_STATUS_AFTER_TWO_HOURS_ATTEMPTS]
   \<and> store (fetchTransactionStatusDetails statuses 8000000 [storedRecord (Num 3) (Num 3) False]
        (Resolved (Some (withCounts (Num 3) (Num 3) pendingTxn))) pendingTxn 120)
       = [storedRecord (Num 3) (Num 3) False]"
  by (simp add: poll_defs js_defs example_defs update_record_def)

text \<open>
  Claim C5, amended. Past the two entry gates and with a persisted record that holds its
  parameters: if the record is exhausted the poll is exactly the limit-exceeded error with
  no fetch, whatever the counters; if the record is not exhausted, the age is below the
  second checkpoint and the stored \<^verbatim>\<open>currentCount\<close> is less than \<^verbatim>\<open>maxCount\<close>, a fetch
  that returns \<^verbatim>\<open>maxCount === currentCount\<close> with a non-terminal status shows exactly the
  attempts-exceeded error; and if the record is not exhausted and already holds
  \<^verbatim>\<open>currentCount = maxCount\<close>, the attempts-exceeded error is not shown at all.
\<close>

theorem C5_attempts_and_limit:
  assumes "\<not> truthy (exhausted_of (Some transaction))"
      and "\<not> withinCheckpoint1 now transaction cp1"
      and "findIndex (txn_id transaction) pref = Some i"
      and "rec_reqChkTxnParams (pref ! i) = Some q"
  shows "(truthy (rec_isReqChkTxnExhausted (pref ! i)) \<longrightarrow>
            fetchTransactionStatusDetails K now pref resp transaction cp1
              = quiet pref [SnackError PENDING_STATUS_LIMT_EXCEEDED_DEFAULT])
       \<and> (\<not> truthy (rec_isReqChkTxnExhausted (pref ! i))
          \<and> \<not> js_ge (secondsSince now (createdAt transaction)) (toNumber (checkPoint2 q))
          \<and> js_lt (toNumber (currentCount q)) (toNumber (maxCount q))
          \<and> resp = Resolved t
          \<and> fst (snd (counts_of (params_of t))) = fst (counts_of (params_of t))
          \<and> isNonFinalStatus K t \<longrightarrow>
            snacks (fetchTransactionStatusDetails K now pref resp transaction cp1)
              = [SnackError PENDING_STATUS_ATTEMPTS_EXCEEDED]
            \<and> fetches (fetchTransactionStatusDetails K now pref resp transaction cp1) = 1)
       \<and> (\<not> truthy (rec_isReqChkTxnExhausted (pref ! i)) \<and> currentCount q = maxCount q \<longrightarrow>
            SnackError PENDING_STATUS_ATTEMPTS_EXCEEDED
              \<notin> set (snacks (fetchTransactionStatusDetails K now pref resp transaction cp1)))"
proof -
  have gate: "fetchTransactionStatusDetails K now pref resp transaction cp1
      = handleSubsequentRefresh K pref i (secondsSince now (createdAt transaction)) resp"
    using assms(3) by (simp add: poll_past_gates [OF assms(1,2)])
  have a: "truthy (rec_isReqChkTxnExhausted (pref ! i)) \<longrightarrow>
      handleSubsequentRefresh K pref i (secondsSince now (createdAt transaction)) resp
        = quiet pref [SnackError PENDING_STATUS_LIMT_EXCEEDED_DEFAULT]"
    using assms(4) by (simp add: handleSubsequentRefresh_def)
  have b: "\<not> truthy (rec_isReqChkTxnExhausted (pref ! i))
          \<and> \<not> js_ge (secondsSince now (createdAt transaction)) (toNumber (checkPoint2 q))
          \<and> js_lt (toNumber (currentCount q)) (toNumber (maxCount q))
          \<and> resp = Resolved t
          \<and> fst (snd (counts_of (params_of t))) = fst (counts_of (params_of t))
          \<and> isNonFinalStatus K t \<longrightarrow>
      snacks (handleSubsequentRefresh K pref i (secondsSince now (createdAt transaction)) resp)
        = [SnackError PENDING_STATUS_ATTEMPTS_EXCEEDED]
      \<and> fetches (handleSubsequentRefresh K pref i (secondsSince now (createdAt transaction)) resp) = 1"
    using assms(4)
    by (auto simp: handleSubsequentRefresh_def handleWithinCheckpoint2Refresh_def split: prod.splits)
  have lt: "currentCount q = maxCount q \<Longrightarrow> \<not> js_lt (toNumber (currentCount q)) (toNumber (maxCount q))"
    by (simp add: js_lt_def split: option.splits)
  have c: "\<not> truthy (rec_isReqChkTxnExhausted (pref ! i)) \<and> currentCount q = maxCount q \<longrightarrow>
      SnackError PENDING_STATUS_ATTEMPTS_EXCEEDED
        \<notin> set (snacks (handleSubsequentRefresh K pref i (secondsSince now (createdAt transaction)) resp))"
    using assms(4) lt
    by (auto simp: handleSubsequentRefresh_def handleAfterCheckpoint2Refresh_def quiet_def
          something_wrong_def Let_def split: fetch_result.splits)
  show ?thesis unfolding gate using a b c by blast
qed

text \<open>
  The three cases at 130 s: an exhausted record; a record at 2 of 3 whose fetch returns
  3 of 3 and PENDING; a record already at 3 of 3.
\<close>

theorem C5_witness:
  "\<not> truthy (exhausted_of (Some pendingTxn)) \<and> \<not> withinCheckpoint1 130000 pendingTxn 120
   \<and> findIndex (txn_id pendingTxn) [storedRecord (Num 1) (Num 3) True] = Some 0
   \<and> truthy (rec_isReqChkTxnExhausted ([storedRecord (Num 1) (Num 3) True] ! 0))
   \<and> fetchTransactionStatusDetails statuses 130000 [storedRecord (Num 1) (Num 3) True] Rejected pendingTxn 120
       = quiet [storedRecord (Num 1) (Num 3) True] [SnackError PENDING_STATUS_LIMT_EXCEEDED_DEFAULT]
   \<and> findIndex (txn_id pendingTxn) [storedRecord (Num 2) (Num 3) False] = Some 0
   \<and> \<not> js_ge (secondsSince 130000 (createdAt pendingTxn)) (toNumber (Num 7200))
   \<and> js_lt (toNumber (Num 2)) (toNumber (Num 3))
   \<and> isNonFinalStatus statuses (Some (withCounts (Num 3) (Num 3) pendingTxn))
   \<and> snacks (fetchTransactionStatusDetails statuses 130000 [storedRecord (Num 2) (Num 3) False]
        (Resolved (Some (withCounts (Num 3) (Num 3) pendingTxn))) pendingTxn 120)
       = [SnackError PENDING_STATUS_ATTEMPTS_EXCEEDED]
   \<and> findIndex (txn_id pendingTxn) [storedRecord (Num 3) (Num 3) False] = Some 0
   \<and> SnackError PENDING_STATUS_ATTEMPTS_EXCEEDED
        \<notin> set (snacks (fetchTransactionStatusDetails statuses 130000 [storedRecord (Num 3) (Num 3) False]
             (Resolved (Some (withCounts (Num 3) (Num 3) pendingTxn))) pendingTxn 120))"
proof -
  let ?q = "\<lambda>c. \<lparr>currentCount = Num c, maxCount = Num 3, checkPoint2 = Num 7200\<rparr>"
  have e: "\<not> truthy (exhausted_of (Some pendingTxn))"
    by (simp add: js_defs example_defs)
  have g: "\<not> withinCheckpoint1 130000 pendingTxn 120"
    by (simp add: withinCheckpoint1_def js_defs example_defs)
  have f: "\<And>c m b. findIndex (txn_id pendingTxn) [storedRecord c m b] = Some 0"
    by (simp add: example_defs)
  have p: "\<And>c b. rec_reqChkTxnParams ([storedRecord (Num c) (Num 3) b] ! 0) = Some (?q c)"
    by (simp add: example_defs)
  have side: "truthy (rec_isReqChkTxnExhausted ([storedRecord (Num 1) (Num 3) True] ! 0))
     \<and> \<not> truthy (rec_isReqChkTxnExhausted ([storedRecord (Num 2) (Num 3) False] ! 0))
     \<and> \<not> truthy (rec_isReqChkTxnExhausted ([storedRecord (Num 3) (Num 3) False] ! 0))
     \<and> \<not> js_ge (secondsSince 130000 (createdAt pendingTxn)) (toNumber (Num 7200))
     \<and> js_lt (toNumber (Num 2)) (toNumber (Num 3))
     \<and> isNonFinalStatus statuses (Some (withCounts (Num 3) (Num 3) pendingTxn))
     \<and> fst (snd (counts_of (params_of (Some (withCounts (Num 3) (Num 3) pendingTxn)))))
         = fst (counts_of (params_of (Some (withCounts (Num 3) (Num 3) pendingTxn))))"
    by (simp add: js_defs example_defs)
  from C5_attempts_and_limit [OF e g f p, of 1 True statuses Rejected]
       C5_attempts_and_limit [OF e g f p, of 2 False statuses
          "Resolved (Some (withCounts (Num 3) (Num 3) pendingTxn))" "Some (withCounts (Num 3) (Num 3) pendingTxn)"]
       C5_attempts_and_limit [OF e g f p, of 3 False statuses
          "Resolved (Some (withCounts (Num 3) (Num 3) pendingTxn))"]
  show ?thesis using e g f side by simp
qed

text \<open>
  Claim C10. On the first-refresh path (no persisted record, both gates passed), a fetch
  that resolves with \<^verbatim>\<open>currentCount\<close> and \<^verbatim>\<open>maxCount\<close> both \<^verbatim>\<open>null\<close> leaves the
  preference list unchanged although one fetch was made; with status
  \<^verbatim>\<open>DELEGATE_INITIATED\<close> the notification is the one for the payer's role; and a later
  poll for the same id that passes the gates is again the first-refresh path:
  the rejected-fetch notification or \<^verbatim>\<open>handleFirstTimeRefresh\<close> on the same list.
\<close>

theorem C10_null_counters_write_nothing:
  assumes "\<not> truthy (exhausted_of (Some transaction))"
      and "\<not> withinCheckpoint1 now transaction cp1"
      and "findIndex (txn_id transaction) pref = None"
      and "reqChkTxnParams x = Some q" and "currentCount q = Null" and "maxCount q = Null"
  shows "store (fetchTransactionStatusDetails K now pref (Resolved (Some x)) transaction cp1) = pref
       \<and> fetches (fetchTransactionStatusDetails K now pref (Resolved (Some x)) transaction cp1) = 1
       \<and> (payerInfo x = Some p \<and> status x = DELEGATE_INITIATED K \<and> role p = Some ''PRIMARY'' \<longrightarrow>
            snacks (fetchTransactionStatusDetails K now pref (Resolved (Some x)) transaction cp1)
              = [SnackError PENDING_TXN_DELEGATE_INITIATED_PRIMARY])
       \<and> (payerInfo x = Some p \<and> status x = DELEGATE_INITIATED K \<and> role p = Some ''SECONDARY'' \<longrightarrow>
            snacks (fetchTransactionStatusDetails K now pref (Resolved (Some x)) transaction cp1)
              = [SnackError (PENDING_TXN_DELEGATE_INITIATED_SECONDARY (name p))])
       \<and> (\<not> truthy (exhausted_of (Some transaction')) \<and> \<not> withinCheckpoint1 now' transaction' cp1'
          \<and> txn_id transaction' = txn_id transaction \<longrightarrow>
            fetchTransactionStatusDetails K now'
                (store (fetchTransactionStatusDetails K now pref (Resolved (Some x)) transaction cp1))
                resp' transaction' cp1'
              = (case resp' of Rejected \<Rightarrow> something_wrong pref
                 | Resolved t \<Rightarrow> handleFirstTimeRefresh K t pref))"
proof -
  have first: "fetchTransactionStatusDetails K now pref (Resolved (Some x)) transaction cp1
      = handleFirstTimeRefresh K (Some x) pref"
    using assms(3) by (simp add: poll_past_gates [OF assms(1,2)])
  have st: "store (handleFirstTimeRefresh K (Some x) pref) = pref"
    using assms(4-6)
    by (simp add: handleFirstTimeRefresh_def something_wrong_def counts_of_def split: option.splits)
  have fe: "fetches (handleFirstTimeRefresh K (Some x) pref) = 1"
    by (simp add: handleFirstTimeRefresh_def something_wrong_def Let_def split: option.splits prod.splits)
  have m1: "payerInfo x = Some p \<and> status x = DELEGATE_INITIATED K \<and> role p = Some ''PRIMARY'' \<longrightarrow>
      snacks (handleFirstTimeRefresh K (Some x) pref) = [SnackError PENDING_TXN_DELEGATE_INITIATED_PRIMARY]"
    using assms(4-6)
    by (simp add: handleFirstTimeRefresh_def handleTransactionStatusMessages_def counts_of_def status_of_def)
  have m2: "payerInfo x = Some p \<and> status x = DELEGATE_INITIATED K \<and> role p = Some ''SECONDARY'' \<longrightarrow>
      snacks (handleFirstTimeRefresh K (Some x) pref)
        = [SnackError (PENDING_TXN_DELEGATE_INITIATED_SECONDARY (name p))]"
    using assms(4-6)
    by (simp add: handleFirstTimeRefresh_def handleTransactionStatusMessages_def counts_of_def status_of_def)
  have later: "\<not> truthy (exhausted_of (Some transaction')) \<and> \<not> withinCheckpoint1 now' transaction' cp1'
          \<and> txn_id transaction' = txn_id transaction \<longrightarrow>
      fetchTransactionStatusDetails K now' pref resp' transaction' cp1'
        = (case resp' of Rejected \<Rightarrow> something_wrong pref
           | Resolved t \<Rightarrow> handleFirstTimeRefresh K t pref)"
    using assms(3) by (auto simp: poll_past_gates)
  show ?thesis unfolding first st using st fe m1 m2 later by simp
qed

text \<open>
  A delegate-initiated answer with \<^verbatim>\<open>null\<close> counters for a PRIMARY payer at 130 s, then a
  second poll at 200 s.
\<close>

theorem C10_witness:
  "\<not> truthy (exhausted_of (Some pendingTxn)) \<and> \<not> withinCheckpoint1 130000 pendingTxn 120
   \<and> findIndex (txn_id pendingTxn) [] = None
   \<and> store (fetchTransactionStatusDetails statuses 130000 []
        (Resolved (Some (withRole ''PRIMARY'' (withCounts Null Null (pendingTxn\<lparr>status := ''DELEGATE_INITIATED''\<rparr>)))))
        pendingTxn 120) = []
   \<and> snacks (fetchTransactionStatusDetails statuses 130000 []
        (Resolved (Some (withRole ''PRIMARY'' (withCounts Null Null (pendingTxn\<lparr>status := ''DELEGATE_INITIATED''\<rparr>)))))
        pendingTxn 120) = [SnackError PENDING_TXN_DELEGATE_INITIATED_PRIMARY]
   \<and> \<not> withinCheckpoint1 200000 pendingTxn 120
   \<and> fetchTransactionStatusDetails statuses 200000
        (store (fetchTransactionStatusDetails statuses 130000 []
           (Resolved (Some (withRole ''PRIMARY'' (withCounts Null Null (pendingTxn\<lparr>status := ''DELEGATE_INITIATED''\<rparr>)))))
           pendingTxn 120))
        (Resolved (Some (withCounts (Num 1) (Num 3) pendingTxn))) pendingTxn 120
       = handleFirstTimeRefresh statuses (Some (withCounts (Num 1) (Num 3) pendingTxn)) []"
proof -
  let ?x = "withRole ''PRIMARY'' (withCounts Null Null (pendingTxn\<lparr>status := ''DELEGATE_INITIATED''\<rparr>))"
  let ?q = "\<lparr>currentCount = Null, maxCount = Null, checkPoint2 = Num 7200\<rparr>"
  let ?p = "\<lparr>role = Some ''PRIMARY'', name = ''Asha''\<rparr>"
  have e: "\<not> truthy (exhausted_of (Some pendingTxn))"
    by (simp add: js_defs example_defs)
  have g: "\<not> withinCheckpoint1 130000 pendingTxn 120" "\<not> withinCheckpoint1 200000 pendingTxn 120"
    by (simp_all add: withinCheckpoint1_def js_defs example_defs)
  have f: "findIndex (txn_id pendingTxn) [] = None" by simp
  have x: "reqChkTxnParams ?x = Some ?q" "currentCount ?q = Null" "maxCount ?q = Null"
          "payerInfo ?x = Some ?p" "status ?x = DELEGATE_INITIATED statuses" "role ?p = Some ''PRIMARY''"
    by (simp_all add: example_defs)
  note T = C10_null_counters_write_nothing [OF e g(1) f x(1-3), of statuses ?p pendingTxn 200000 120
         "Resolved (Some (withCounts (Num 1) (Num 3) pendingTxn))"]
  have st: "store (fetchTransactionStatusDetails statuses 130000 [] (Resolved (Some ?x)) pendingTxn 120) = []"
    by (rule T [THEN conjunct1])
  have sn: "snacks (fetchTransactionStatusDetails statuses 130000 [] (Resolved (Some ?x)) pendingTxn 120)
      = [SnackError PENDING_TXN_DELEGATE_INITIATED_PRIMARY]"
    by (rule T [THEN conjunct2, THEN conjunct2, THEN conjunct1, THEN mp]) (simp add: x)
  have later: "fetchTransactionStatusDetails statuses 200000
        (store (fetchTransactionStatusDetails statuses 130000 [] (Resolved (Some ?x)) pendingTxn 120))
        (Resolved (Some (withCounts (Num 1) (Num 3) pendingTxn))) pendingTxn 120
       = handleFirstTimeRefresh statuses (Some (withCounts (Num 1) (Num 3) pendingTxn)) []"
    by (rule T [THEN conjunct2, THEN conjunct2, THEN conjunct2, THEN conjunct2, THEN mp, simplified])
       (simp add: e g)
  show ?thesis using e g f st sn later by blast
qed

section \<open>Properties of the cached lists\<close>

lemmas manager_defs = refetch_def refetchCircle_def forceUpdate_def forceUpdate_settled_def
  forceCircleUpdate_def forceCircleUpdate_settled_def onSuccess_def onError_def next_main_def
  next_circle_def paginate_def render_of_def getTransactions_def pageSize_def hasNextPage_def
  shimmerData_def initialState_def Let_def

lemma loaded_eq:
  "loaded = \<lparr>offset = 0, filter_st = [], dateMode = [], lastUpdated = Some 0,
     errorOccuredDuringLastUpdate = False,
     transactionsObservableRef = Some (MaybeOf (paginate somePage 0 None)),
     circleTransactionsObservableRef = None, paymentSubscriptionRef = None,
     requests = [\<lparr>req_filter = [], limit = 20, req_offset = 0\<rparr>]\<rparr>"
  by (simp add: loaded_def manager_defs somePage_def isICDCashDepositPendingTransaction_def
        pendingTxn_def purposes_def)

lemma loadMore_resolved:
  assumes "transactionsObservableRef s = Some (MaybeOf p)" and "\<not> errorOccuredDuringLastUpdate s"
  shows "loadMore P nodata (ResponseOk pg) s =
     s\<lparr>offset := offset s + pageSize,
       requests := requests s @ [getTransactions False (filter_st s) pageSize (offset s + pageSize)],
       transactionsObservableRef := Some (MaybeOf
          \<lparr>transactions = transactions p @ kept P pg, count = txnsCount pg,
           hasNext = hasNextPage (txnsCount pg) (offset s + pageSize),
           fetchedTimestamp = lastUpdated s, showShimmer = False,
           totalCbAmount = page_totalCbAmount pg, reqChkTxnCheckPoint1 = None\<rparr>)\<rparr>"
  using assms
  by (simp add: loadMore_def fetchMore_def fetchMore_settled_def render_of_def existingTransactions_def
        next_main_def kept_def Let_def)

lemma loadMores_resolved:
  assumes "transactionsObservableRef s = Some (MaybeOf p)" and "\<not> errorOccuredDuringLastUpdate s"
  shows "cachedItems (loadMores P nodata (map ResponseOk pgs) s) = Some (transactions p @ concat (map (kept P) pgs))
       \<and> publishedHasNext (loadMores P nodata (map ResponseOk pgs) s)
           = Some (if pgs = [] then hasNext p
                   else hasNextPage (txnsCount (last pgs)) (offset s + pageSize * int (length pgs)))
       \<and> offset (loadMores P nodata (map ResponseOk pgs) s) = offset s + pageSize * int (length pgs)
       \<and> requests (loadMores P nodata (map ResponseOk pgs) s)
           = requests s @ pageRequests (filter_st s) (offset s) (length pgs)"
  using assms
proof (induction pgs arbitrary: s p)
  case Nil
  then show ?case by (simp add: cachedItems_def publishedHasNext_def pageRequests_def)
next
  case (Cons pg pgs)
  let ?s1 = "loadMore P nodata (ResponseOk pg) s"
  let ?p1 = "\<lparr>transactions = transactions p @ kept P pg, count = txnsCount pg,
           hasNext = hasNextPage (txnsCount pg) (offset s + pageSize),
           fetchedTimestamp = lastUpdated s, showShimmer = False,
           totalCbAmount = page_totalCbAmount pg, reqChkTxnCheckPoint1 = None\<rparr>"
  have s1: "?s1 = s\<lparr>offset := offset s + pageSize,
       requests := requests s @ [getTransactions False (filter_st s) pageSize (offset s + pageSize)],
       transactionsObservableRef := Some (MaybeOf ?p1)\<rparr>"
    using Cons.prems by (rule loadMore_resolved)
  have a: "transactionsObservableRef ?s1 = Some (MaybeOf ?p1)" by (simp add: s1)
  have b: "\<not> errorOccuredDuringLastUpdate ?s1" using Cons.prems by (simp add: s1)
  have f: "offset ?s1 = offset s + pageSize" "filter_st ?s1 = filter_st s"
     "requests ?s1 = requests s @ [getTransactions False (filter_st s) pageSize (offset s + pageSize)]"
    by (simp_all add: s1)
  have pr: "pageRequests (filter_st s) (offset s) (Suc (length pgs))
      = getTransactions False (filter_st s) pageSize (offset s + pageSize)
        # pageRequests (filter_st s) (offset s + pageSize) (length pgs)"
    by (simp add: pageRequests_def map_upt_Suc algebra_simps del: upt_Suc)
  from Cons.IH [OF a b] show ?case
    by (simp add: f pr algebra_simps)
qed

lemma refetch_ok:
  "refetch P now (ResponseOk pg) s =
     s\<lparr>offset := 0, lastUpdated := Some now, errorOccuredDuringLastUpdate := False,
       transactionsObservableRef := Some (MaybeOf
          \<lparr>transactions = kept P pg, count = txnsCount pg, hasNext = hasNextPage (txnsCount pg) 0,
           fetchedTimestamp = lastUpdated s, showShimmer = False,
           totalCbAmount = page_totalCbAmount pg,
           reqChkTxnCheckPoint1 = page_reqChkTxnCheckPoint1 pg\<rparr>),
       requests := requests s @ [getTransactions False (filter_st s) pageSize 0]\<rparr>"
  by (simp add: refetch_def forceUpdate_def forceUpdate_settled_def onSuccess_def next_main_def
        paginate_def render_of_def kept_def Let_def split: option.splits)

text \<open>
  Claim C1. Take any state, load the first page with \<^verbatim>\<open>forceUpdate\<close> and then call
  \<^verbatim>\<open>fetchMore\<close> any number of times, serially, each answered with a page. The cached
  items are then the kept (filtered) items of all the pages in the order fetched, whatever
  the counts the server reports; the published \<^verbatim>\<open>hasNext\<close> is false exactly when the
  offset of the last request plus the page size reaches the count of the last response;
  and the requests went out for offsets 0, 20, 40, ... under the unchanged filter.
\<close>

theorem C1_pages_are_appended_in_order:
  "cachedItems (loadMores P nodata (map ResponseOk pgs) (refetch P now (ResponseOk pg0) s))
     = Some (concat (map (kept P) (pg0 # pgs)))
   \<and> publishedHasNext (loadMores P nodata (map ResponseOk pgs) (refetch P now (ResponseOk pg0) s))
     = Some (\<not> (req_offset (last (requests (loadMores P nodata (map ResponseOk pgs) (refetch P now (ResponseOk pg0) s))))
                  + pageSize \<ge> txnsCount (last (pg0 # pgs))))
   \<and> requests (loadMores P nodata (map ResponseOk pgs) (refetch P now (ResponseOk pg0) s))
     = requests s @ map (\<lambda>k. \<lparr>req_filter = filter_st s, limit = 20, req_offset = 20 * int k\<rparr>) [0..<Suc (length pgs)]"
proof -
  let ?s0 = "refetch P now (ResponseOk pg0) s"
  let ?p0 = "\<lparr>transactions = kept P pg0, count = txnsCount pg0, hasNext = hasNextPage (txnsCount pg0) 0,
           fetchedTimestamp = lastUpdated s, showShimmer = False,
           totalCbAmount = page_totalCbAmount pg0,
           reqChkTxnCheckPoint1 = page_reqChkTxnCheckPoint1 pg0\<rparr>"
  have a: "transactionsObservableRef ?s0 = Some (MaybeOf ?p0)" by (simp add: refetch_ok)
  have b: "\<not> errorOccuredDuringLastUpdate ?s0" by (simp add: refetch_ok)
  have f: "offset ?s0 = 0" "filter_st ?s0 = filter_st s"
     "requests ?s0 = requests s @ [getTransactions False (filter_st s) pageSize 0]"
    by (simp_all add: refetch_ok)
  note L = loadMores_resolved [OF a b, of P nodata pgs]
  have reqs: "requests (loadMores P nodata (map ResponseOk pgs) ?s0)
     = requests s @ map (\<lambda>k. \<lparr>req_filter = filter_st s, limit = 20, req_offset = 20 * int k\<rparr>) [0..<Suc (length pgs)]"
    using L by (simp add: f pageRequests_def getTransactions_def pageSize_def map_upt_Suc del: upt_Suc)
  have lastreq: "req_offset (last (requests (loadMores P nodata (map ResponseOk pgs) ?s0))) = 20 * int (length pgs)"
    unfolding reqs by (simp add: last_map del: upt_Suc)
  have hn: "publishedHasNext (loadMores P nodata (map ResponseOk pgs) ?s0)
     = Some (\<not> (20 * int (length pgs) + pageSize \<ge> txnsCount (last (pg0 # pgs))))"
    using L by (auto simp: f hasNextPage_def pageSize_def)
  have items: "cachedItems (loadMores P nodata (map ResponseOk pgs) ?s0) = Some (concat (map (kept P) (pg0 # pgs)))"
    using L by simp
  show ?thesis using items hn reqs unfolding lastreq by simp
qed

text \<open>
  Three pages of one kept item each; the last response, to the request for offset 40,
  reports a count of 2, below the three items held: nothing is dropped and no further
  page is announced.
\<close>

theorem C1_witness:
  "cachedItems (loadMores purposes None [ResponseOk (somePage\<lparr>txnsCount := 30\<rparr>), ResponseOk (somePage\<lparr>txnsCount := 2\<rparr>)]
       (refetch purposes 0 (ResponseOk somePage) initialState))
     = Some [pendingTxn, pendingTxn, pendingTxn]
   \<and> publishedHasNext (loadMores purposes None [ResponseOk (somePage\<lparr>txnsCount := 30\<rparr>), ResponseOk (somePage\<lparr>txnsCount := 2\<rparr>)]
       (refetch purposes 0 (ResponseOk somePage) initialState))
     = Some False
   \<and> map req_offset (requests (loadMores purposes None [ResponseOk (somePage\<lparr>txnsCount := 30\<rparr>), ResponseOk (somePage\<lparr>txnsCount := 2\<rparr>)]
       (refetch purposes 0 (ResponseOk somePage) initialState)))
     = [0, 20, 40]"
proof -
  have k: "\<And>n. kept purposes (somePage\<lparr>txnsCount := n\<rparr>) = [pendingTxn]" "kept purposes somePage = [pendingTxn]"
    by (simp_all add: kept_def somePage_def isICDCashDepositPendingTransaction_def pendingTxn_def purposes_def)
  note T = C1_pages_are_appended_in_order [of purposes None "[somePage\<lparr>txnsCount := 30\<rparr>, somePage\<lparr>txnsCount := 2\<rparr>]" 0 somePage initialState]
  have r: "requests (loadMores purposes None [ResponseOk (somePage\<lparr>txnsCount := 30\<rparr>), ResponseOk (somePage\<lparr>txnsCount := 2\<rparr>)]
       (refetch purposes 0 (ResponseOk somePage) initialState))
     = [\<lparr>req_filter = [], limit = 20, req_offset = 0\<rparr>, \<lparr>req_filter = [], limit = 20, req_offset = 20\<rparr>,
        \<lparr>req_filter = [], limit = 20, req_offset = 40\<rparr>]"
    using T by (simp add: initialState_def upt_rec numeral_2_eq_2 numeral_3_eq_3)
  show ?thesis using T unfolding r by (simp add: k pageSize_def)
qed

text \<open>
  Claim C2 as written fails. The circle list is fetched at time 0 and the main list at
  1000 s. At 1801 s the circle list is resolved, no error is recorded and its own fetch
  is 1801 s old, so the rule of the specification asks for a refresh; the hook answers
  no, because the fetch of the main list moved the one \<^verbatim>\<open>lastUpdated\<close> both lists read.
  Also, while the very first fetch is in flight the page is unresolved and the hook does
  not ask for a refresh.
\<close>

theorem C2_counterexample:
  "circleTransactionsObservableRef (refetchCircle purposes 0 (ResponseOk somePage) initialState)
      = Some (MaybeOf (paginate somePage 0 None))
   \<and> circleTransactionsObservableRef
        (refetch purposes 1000000 (ResponseOk somePage) (refetchCircle purposes 0 (ResponseOk somePage) initialState))
      = Some (MaybeOf (paginate somePage 0 None))
   \<and> \<not> errorOccuredDuringLastUpdate
        (refetch purposes 1000000 (ResponseOk somePage) (refetchCircle purposes 0 (ResponseOk somePage) initialState))
   \<and> shouldRefresh_spec False False 0 1801000
   \<and> \<not> shouldUpdateCircleHistory
        (render_of (refetch purposes 1000000 (ResponseOk somePage) (refetchCircle purposes 0 (ResponseOk somePage) initialState)))
        1801000
        (refetch purposes 1000000 (ResponseOk somePage) (refetchCircle purposes 0 (ResponseOk somePage) initialState))
   \<and> transactionsObservableRef (forceUpdate (render_of initialState) 0 initialState) = Some MaybeUnresolved
   \<and> shouldRefresh_spec True False 0 1000
   \<and> \<not> shouldUpdate (render_of (forceUpdate (render_of initialState) 0 initialState)) 1000
        (forceUpdate (render_of initialState) 0 initialState)"
  by (simp add: manager_defs shouldUpdateCircleHistory_def shouldUpdate_def hasExpired_def shouldRefresh_spec_def
        somePage_def isICDCashDepositPendingTransaction_def pendingTxn_def purposes_def)

text \<open>
  Claim C2, amended. For either list the hook asks for a refresh exactly when that list's
  subject has not been created, the render's error flag is set, \<^verbatim>\<open>lastUpdated\<close> is unset,
  or at least 1800 s have passed since \<^verbatim>\<open>lastUpdated\<close>. \<^verbatim>\<open>lastUpdated\<close> is one timestamp
  for both lists: after \<^verbatim>\<open>forceUpdate\<close> or \<^verbatim>\<open>forceCircleUpdate\<close> at time \<open>t\<close>, the next
  render measures the age of both lists from \<open>t\<close>.
\<close>

theorem C2_shouldUpdate_shared_clock:
  "(shouldUpdate r now s \<longleftrightarrow>
      transactionsObservableRef s = None \<or> r_error r \<or> r_lastUpdated r = None
      \<or> now - the (r_lastUpdated r) \<ge> 1800 * 1000)
   \<and> (shouldUpdateCircleHistory r now s \<longleftrightarrow>
      circleTransactionsObservableRef s = None \<or> r_error r \<or> r_lastUpdated r = None
      \<or> now - the (r_lastUpdated r) \<ge> 1800 * 1000)
   \<and> (shouldUpdate (render_of (forceUpdate r0 t s)) now (forceUpdate r0 t s) \<longleftrightarrow> now - t \<ge> 1800 * 1000)
   \<and> (shouldUpdateCircleHistory (render_of (forceUpdate r0 t s)) now (forceUpdate r0 t s) \<longleftrightarrow>
        circleTransactionsObservableRef s = None \<or> now - t \<ge> 1800 * 1000)
   \<and> (shouldUpdateCircleHistory (render_of (forceCircleUpdate r0 t s)) now (forceCircleUpdate r0 t s) \<longleftrightarrow>
        now - t \<ge> 1800 * 1000)
   \<and> (shouldUpdate (render_of (forceCircleUpdate r0 t s)) now (forceCircleUpdate r0 t s) \<longleftrightarrow>
        transactionsObservableRef s = None \<or> now - t \<ge> 1800 * 1000)"
  by (auto simp: shouldUpdate_def shouldUpdateCircleHistory_def hasExpired_def forceUpdate_def
        forceCircleUpdate_def render_of_def Let_def split: option.splits)

text \<open>
  After a refresh of the main list at time 0: due at 1801 s, not due at 1799 s; the
  circle list, whose subject does not exist yet, is due.
\<close>

theorem C2_witness:
  "shouldUpdate (render_of (forceUpdate (render_of initialState) 0 initialState)) 1801000
      (forceUpdate (render_of initialState) 0 initialState)
   \<and> \<not> shouldUpdate (render_of (forceUpdate (render_of initialState) 0 initialState)) 1799000
      (forceUpdate (render_of initialState) 0 initialState)
   \<and> shouldUpdateCircleHistory (render_of (forceUpdate (render_of initialState) 0 initialState)) 1799000
      (forceUpdate (render_of initialState) 0 initialState)"
  using C2_shouldUpdate_shared_clock [of "render_of initialState" 1801000 initialState "render_of initialState" 0]
        C2_shouldUpdate_shared_clock [of "render_of initialState" 1799000 initialState "render_of initialState" 0]
  by (simp add: initialState_def)

text \<open>
  Claim C7 as written fails. After the first page is loaded a refresh publishes the
  shimmer page; \<^verbatim>\<open>fetchMore\<close> called then moves the offset to 20 and sends a request for
  offset 20.
\<close>

theorem C7_counterexample:
  "transactionsObservableRef (forceUpdate (render_of (refetch purposes 0 (ResponseOk somePage) initialState)) 5000
        (refetch purposes 0 (ResponseOk somePage) initialState))
     = Some (MaybeOf (shimmerData 1 5000 (Some 0)))
   \<and> showShimmer (shimmerData 1 5000 (Some 0))
   \<and> snd (fetchMore None (render_of (forceUpdate (render_of (refetch purposes 0 (ResponseOk somePage) initialState)) 5000
        (refetch purposes 0 (ResponseOk somePage) initialState)))
       (forceUpdate (render_of (refetch purposes 0 (ResponseOk somePage) initialState)) 5000
        (refetch purposes 0 (ResponseOk somePage) initialState)))
     = Awaiting 20 []
   \<and> offset (fst (fetchMore None (render_of (forceUpdate (render_of (refetch purposes 0 (ResponseOk somePage) initialState)) 5000
        (refetch purposes 0 (ResponseOk somePage) initialState)))
       (forceUpdate (render_of (refetch purposes 0 (ResponseOk somePage) initialState)) 5000
        (refetch purposes 0 (ResponseOk somePage) initialState))))
     = 20
   \<and> requests (fst (fetchMore None (render_of (forceUpdate (render_of (refetch purposes 0 (ResponseOk somePage) initialState)) 5000
        (refetch purposes 0 (ResponseOk somePage) initialState)))
       (forceUpdate (render_of (refetch purposes 0 (ResponseOk somePage) initialState)) 5000
        (refetch purposes 0 (ResponseOk somePage) initialState))))
     = [\<lparr>req_filter = [], limit = 20, req_offset = 0\<rparr>, \<lparr>req_filter = [], limit = 20, req_offset = 0\<rparr>,
        \<lparr>req_filter = [], limit = 20, req_offset = 20\<rparr>]"
  by (simp add: manager_defs fetchMore_def existingTransactions_def
        somePage_def isICDCashDepositPendingTransaction_def pendingTxn_def purposes_def)

text \<open>
  Claim C7, amended. \<^verbatim>\<open>fetchMore\<close> (and \<^verbatim>\<open>fetchMoreCircleTxns\<close>) does nothing exactly
  when the list's subject has not been created or the render's error flag is set. The
  shimmer page does not stop it: on any resolved page, the shimmer page included, it adds
  the page size to the offset, sends the request for the render's offset plus the page
  size, and holds the items of that page (none, for the shimmer page) for the append.
\<close>

theorem C7_loadMore_ignores_shimmer:
  "(fetchMore nodata r s = (s, NotIssued) \<longleftrightarrow> transactionsObservableRef s = None \<or> r_error r)
   \<and> (fetchMoreCircleTxns nodata r s = (s, NotIssued) \<longleftrightarrow> circleTransactionsObservableRef s = None \<or> r_error r)
   \<and> (transactionsObservableRef s = Some (MaybeOf p) \<and> \<not> r_error r \<longrightarrow>
        fetchMore nodata r s =
          (s\<lparr>offset := offset s + pageSize,
             requests := requests s @ [getTransactions False (r_filter r) pageSize (r_offset r + pageSize)]\<rparr>,
           Awaiting (r_offset r + pageSize) (transactions p)))
   \<and> (circleTransactionsObservableRef s = Some (MaybeOf p) \<and> \<not> r_error r \<longrightarrow>
        fetchMoreCircleTxns nodata r s =
          (s\<lparr>offset := offset s + pageSize,
             requests := requests s @ [getTransactions True [] pageSize (r_offset r + pageSize)]\<rparr>,
           Awaiting (r_offset r + pageSize) (transactions p)))"
  by (auto simp: fetchMore_def fetchMoreCircleTxns_def existingTransactions_def Let_def
        split: option.splits Maybe.splits)

text \<open>Both lists on their shimmer page: the request for offset 20 goes out.\<close>

theorem C7_witness:
  "transactionsObservableRef (forceUpdate (render_of loaded) 5000 loaded) = Some (MaybeOf (shimmerData 1 5000 (Some 0)))
   \<and> \<not> r_error (render_of (forceUpdate (render_of loaded) 5000 loaded))
   \<and> fetchMore None (render_of (forceUpdate (render_of loaded) 5000 loaded)) (forceUpdate (render_of loaded) 5000 loaded)
      = ((forceUpdate (render_of loaded) 5000 loaded)
           \<lparr>offset := 20,
            requests := [\<lparr>req_filter = [], limit = 20, req_offset = 0\<rparr>, \<lparr>req_filter = [], limit = 20, req_offset = 0\<rparr>,
                         \<lparr>req_filter = [], limit = 20, req_offset = 20\<rparr>]\<rparr>,
         Awaiting 20 [])
   \<and> circleTransactionsObservableRef (forceCircleUpdate (render_of loaded) 5000
         (initializeCircleTransactionsObservable loaded)) = Some (MaybeOf (shimmerData 0 5000 None))
   \<and> snd (fetchMoreCircleTxns None (render_of loaded)
        (forceCircleUpdate (render_of loaded) 5000 (initializeCircleTransactionsObservable loaded)))
      = Awaiting 20 []"
proof -
  let ?s = "forceUpdate (render_of loaded) 5000 loaded"
  let ?c = "forceCircleUpdate (render_of loaded) 5000 (initializeCircleTransactionsObservable loaded)"
  have a: "transactionsObservableRef ?s = Some (MaybeOf (shimmerData 1 5000 (Some 0)))"
          "\<not> r_error (render_of ?s)" "offset ?s = 0" "r_offset (render_of ?s) = 0" "r_filter (render_of ?s) = []"
          "requests ?s = [\<lparr>req_filter = [], limit = 20, req_offset = 0\<rparr>, \<lparr>req_filter = [], limit = 20, req_offset = 0\<rparr>]"
    by (simp_all add: loaded_eq forceUpdate_def render_of_def getTransactions_def pageSize_def Let_def)
  have b: "circleTransactionsObservableRef ?c = Some (MaybeOf (shimmerData 0 5000 None))"
          "\<not> r_error (render_of loaded)" "r_offset (render_of loaded) = 0"
    by (simp_all add: loaded_eq forceCircleUpdate_def initializeCircleTransactionsObservable_def render_of_def Let_def)
  from C7_loadMore_ignores_shimmer [of None "render_of ?s" ?s "shimmerData 1 5000 (Some 0)"]
       C7_loadMore_ignores_shimmer [of None "render_of loaded" ?c "shimmerData 0 5000 None"]
  show ?thesis using a b by (simp add: getTransactions_def pageSize_def shimmerData_def)
qed

text \<open>
  What every filter operation shares, since each ends in \<^verbatim>\<open>forceUpdate\<close>: the offset is
  0, no items are cached, and one request for offset 0 goes out with the filter of the
  render that made the call.
\<close>

lemma filter_changes_reset_and_refetch:
  "offset (forceUpdate r now s) = 0
   \<and> (cachedItems (forceUpdate r now s) = None \<or> cachedItems (forceUpdate r now s) = Some [])
   \<and> requests (forceUpdate r now s) = requests s @ [\<lparr>req_filter = r_filter r, limit = 20, req_offset = 0\<rparr>]
   \<and> filter_st (forceUpdate r now s) = filter_st s \<and> dateMode (forceUpdate r now s) = dateMode s"
  by (simp add: forceUpdate_def cachedItems_def getTransactions_def pageSize_def shimmerData_def Let_def
        split: option.splits)

text \<open>
  Claim C8 at a concrete input. The first page is loaded with the empty filter;
  \<^verbatim>\<open>applyFilter({vpa: 'asha@upi'})\<close> is then called from that render. The stored filter
  becomes the new one, the offset is 0 and the items are gone, but the request that goes
  out carries the empty filter of the render, not the new filter. In the same way
  \<^verbatim>\<open>clearFilter\<close> called while \<^verbatim>\<open>{vpa: 'asha@upi'}\<close> is the filter sends that filter.
\<close>

theorem C8_applyFilter_requests_old_filter:
  "filter_st loaded = [] \<and> cachedItems loaded = Some [pendingTxn]
   \<and> filter_st (applyFilter (render_of loaded) 5000 [(''vpa'', ''asha@upi'')] loaded) = [(''vpa'', ''asha@upi'')]
   \<and> offset (applyFilter (render_of loaded) 5000 [(''vpa'', ''asha@upi'')] loaded) = 0
   \<and> cachedItems (applyFilter (render_of loaded) 5000 [(''vpa'', ''asha@upi'')] loaded) = Some []
   \<and> requests (applyFilter (render_of loaded) 5000 [(''vpa'', ''asha@upi'')] loaded)
       = requests loaded @ [\<lparr>req_filter = [], limit = 20, req_offset = 0\<rparr>]
   \<and> requests (clearFilter (render_of (loaded\<lparr>filter_st := [(''vpa'', ''asha@upi'')]\<rparr>)) 5000
                  (loaded\<lparr>filter_st := [(''vpa'', ''asha@upi'')]\<rparr>))
       = requests loaded @ [\<lparr>req_filter = [(''vpa'', ''asha@upi'')], limit = 20, req_offset = 0\<rparr>]"
  by (simp add: loaded_eq applyFilter_def clearFilter_def forceUpdate_def render_of_def cachedItems_def
        getTransactions_def pageSize_def shimmerData_def paginate_def somePage_def Let_def)

text \<open>
  Claim C9. With the payment subscription active, an event value among the recognized
  ones calls \<^verbatim>\<open>forceUpdate\<close> once: the offset is 0 and exactly one request, for the first
  page, is added; any other value changes nothing.
\<close>

theorem C9_recognized_event_forces_one_refresh:
  assumes "paymentSubscriptionRef s = Some r"
  shows "(action \<in> set (recognized A) \<longrightarrow>
            onPaymentAction A now action s = forceUpdate r now s
            \<and> offset (onPaymentAction A now action s) = 0
            \<and> requests (onPaymentAction A now action s)
                = requests s @ [\<lparr>req_filter = r_filter r, limit = 20, req_offset = 0\<rparr>])
       \<and> (action \<notin> set (recognized A) \<longrightarrow> onPaymentAction A now action s = s)"
  using assms
  by (simp add: onPaymentAction_def forceUpdate_def getTransactions_def pageSize_def Let_def
        split: option.splits)

text \<open>After subscribing on the loaded list: a direct-pay event refreshes, an unknown value does not.\<close>

theorem C9_witness:
  "paymentSubscriptionRef (subscribePaymentActions (render_of loaded) loaded) = Some (render_of loaded)
   \<and> ''DIRECT_PAY_SENT'' \<in> set (recognized actions)
   \<and> offset (onPaymentAction actions 9000 ''DIRECT_PAY_SENT'' (subscribePaymentActions (render_of loaded) loaded)) = 0
   \<and> requests (onPaymentAction actions 9000 ''DIRECT_PAY_SENT'' (subscribePaymentActions (render_of loaded) loaded))
       = [\<lparr>req_filter = [], limit = 20, req_offset = 0\<rparr>, \<lparr>req_filter = [], limit = 20, req_offset = 0\<rparr>]
   \<and> ''REFUNDED'' \<notin> set (recognized actions)
   \<and> onPaymentAction actions 9000 ''REFUNDED'' (subscribePaymentActions (render_of loaded) loaded)
       = subscribePaymentActions (render_of loaded) loaded"
proof -
  have sub: "paymentSubscriptionRef (subscribePaymentActions (render_of loaded) loaded) = Some (render_of loaded)"
    by (simp add: subscribePaymentActions_def)
  have mem: "''DIRECT_PAY_SENT'' \<in> set (recognized actions)" "''REFUNDED'' \<notin> set (recognized actions)"
    by (simp_all add: recognized_def actions_def)
  have r: "requests (subscribePaymentActions (render_of loaded) loaded) = [\<lparr>req_filter = [], limit = 20, req_offset = 0\<rparr>]"
          "r_filter (render_of loaded) = []"
    by (simp_all add: subscribePaymentActions_def loaded_eq render_of_def)
  note T = C9_recognized_event_forces_one_refresh [OF sub, of _ actions 9000]
  from T [of "''DIRECT_PAY_SENT''", THEN conjunct1, THEN mp, OF mem(1), THEN conjunct2]
       T [of "''REFUNDED''", THEN conjunct2, THEN mp, OF mem(2)]
  show ?thesis using sub mem r by simp
qed

end
